theory Spec2Isabelle
  imports Main
begin

section \<open>JavaScript values and string helpers\<close>

text \<open>
  The four Lambda handlers of the repository read their inputs from the CloudFormation
  event. A property value is modelled as \<open>undefined\<close>, a string, or a list of strings
  (what CloudFormation delivers for \<open>String\<close> and \<open>CommaDelimitedList\<close> parameters).
  Strings are lists of 8-bit characters; the identifiers handled here are ASCII.
\<close>

datatype jsval = JUndefined | JString string | JArray "string list"

text \<open>\<open>Array.prototype.join\<close> on a list of strings.\<close>

fun join :: "string \<Rightarrow> string list \<Rightarrow> string" where
  "join sep [] = []"
| "join sep [x] = x"
| "join sep (x # y # ys) = x @ sep @ join sep (y # ys)"

text \<open>The string coercion that \<open>RegExp.prototype.test\<close>, \<open>exec\<close> and template literals apply.\<close>

fun ToString :: "jsval \<Rightarrow> string" where
  "ToString JUndefined = ''undefined''"
| "ToString (JString s) = s"
| "ToString (JArray xs) = join '','' xs"

fun of_opt :: "string option \<Rightarrow> jsval" where
  "of_opt None = JUndefined"
| "of_opt (Some s) = JString s"

text \<open>Truthiness of a value that is a string or \<open>undefined\<close>: the empty string is falsy.\<close>

fun truthy :: "string option \<Rightarrow> bool" where
  "truthy None = False"
| "truthy (Some s) = (s \<noteq> [])"

text \<open>\<open>String.prototype.split\<close> with a one-character separator.\<close>

fun split :: "char \<Rightarrow> string \<Rightarrow> string list" where
  "split sep [] = [[]]"
| "split sep (c # cs) =
     (if c = sep then [] # split sep cs
      else (case split sep cs of [] \<Rightarrow> [[c]] | p # ps \<Rightarrow> (c # p) # ps))"

text \<open>Indexing an array: \<open>undefined\<close> (here \<open>None\<close>) out of range.\<close>

definition nth_opt :: "'a list \<Rightarrow> nat \<Rightarrow> 'a option" where
  "nth_opt xs i = (if i < length xs then Some (xs ! i) else None)"

text \<open>
  \<open>[...new Set(xs)]\<close>: the distinct elements of \<open>xs\<close> in order of first occurrence.
\<close>

fun set_insert_all :: "'a list \<Rightarrow> 'a list \<Rightarrow> 'a list" where
  "set_insert_all acc [] = acc"
| "set_insert_all acc (x # xs) =
     set_insert_all (if x \<in> set acc then acc else acc @ [x]) xs"

definition new_Set :: "'a list \<Rightarrow> 'a list" where
  "new_Set xs = set_insert_all [] xs"


section \<open>Regular expressions\<close>

text \<open>
  The handlers validate and parse their inputs with regular expressions. A pattern is a
  term of type \<open>rx\<close>; the matcher is a backtracking matcher that returns the possible
  continuations in the priority order of ECMAScript (greedy quantifiers try the longest
  repetition first, lazy ones the shortest), so that \<open>exec\<close> yields the captures of the
  first match. A repetition beyond the minimum count must consume input, as in
  ECMAScript.
\<close>

datatype rx =
    Lit char
  | Dot
  | Cls bool "(char \<times> char) list"
  | Eps
  | Seq rx rx
  | Rep nat "nat option" bool rx
  | Grp nat rx
  | Bol
  | Eol

text \<open>A matcher state: position in the subject, rest of the subject, captures so far.\<close>

type_synonym mstate = "nat \<times> string \<times> (nat \<times> string) list"

definition in_ranges :: "(char \<times> char) list \<Rightarrow> char \<Rightarrow> bool" where
  "in_ranges rs c =
     list_ex (\<lambda>(lo, hi). (of_char lo :: nat) \<le> of_char c \<and> (of_char c :: nat) \<le> of_char hi) rs"

fun step_char :: "(char \<Rightarrow> bool) \<Rightarrow> mstate \<Rightarrow> mstate list" where
  "step_char p (i, [], cs) = []"
| "step_char p (i, c # s, cs) = (if p c then [(Suc i, s, cs)] else [])"

definition remaining :: "mstate \<Rightarrow> nat" where
  "remaining st = length (fst (snd st))"

function rep_iter ::
  "(mstate \<Rightarrow> mstate list) \<Rightarrow> nat \<Rightarrow> nat option \<Rightarrow> bool \<Rightarrow> mstate \<Rightarrow> mstate list" where
  "rep_iter m mn mx g st =
     (if mx = Some 0 then (if mn = 0 then [st] else [])
      else if 0 < mn then
        concat (map (rep_iter m (mn - 1) (map_option (\<lambda>k. k - 1) mx) g)
                    (filter (\<lambda>st'. remaining st' \<le> remaining st) (m st)))
      else if g then
        concat (map (rep_iter m 0 (map_option (\<lambda>k. k - 1) mx) g)
                    (filter (\<lambda>st'. remaining st' < remaining st) (m st))) @ [st]
      else
        st # concat (map (rep_iter m 0 (map_option (\<lambda>k. k - 1) mx) g)
                    (filter (\<lambda>st'. remaining st' < remaining st) (m st))))"
  by pat_completeness auto
termination
  by (relation "measure (\<lambda>(m, mn, mx, g, st). mn + remaining st)") auto

declare rep_iter.simps [simp del]

primrec ms :: "rx \<Rightarrow> mstate \<Rightarrow> mstate list" where
  "ms (Lit c) st = step_char (\<lambda>d. d = c) st"
| "ms Dot st = step_char (\<lambda>d. d \<noteq> CHR 0x0A \<and> d \<noteq> CHR 0x0D) st"
| "ms (Cls neg rs) st = step_char (\<lambda>d. in_ranges rs d \<noteq> neg) st"
| "ms Eps st = [st]"
| "ms (Seq a b) st = concat (map (ms b) (ms a st))"
| "ms (Rep mn mx g r) st = rep_iter (ms r) mn mx g st"
| "ms (Grp n r) st =
     map (\<lambda>st'. (fst st', fst (snd st'),
                  (n, take (fst st' - fst st) (fst (snd st))) # snd (snd st')))
         (ms r st)"
| "ms Bol st = (if fst st = 0 then [st] else [])"
| "ms Eol st = (if fst (snd st) = [] then [st] else [])"

primrec ngroups :: "rx \<Rightarrow> nat" where
  "ngroups (Lit c) = 0"
| "ngroups Dot = 0"
| "ngroups (Cls neg rs) = 0"
| "ngroups Eps = 0"
| "ngroups (Seq a b) = ngroups a + ngroups b"
| "ngroups (Rep mn mx g r) = ngroups r"
| "ngroups (Grp n r) = Suc (ngroups r)"
| "ngroups Bol = 0"
| "ngroups Eol = 0"

text \<open>The first start position, from \<open>i\<close> on, at which the pattern matches.\<close>

fun match_from :: "rx \<Rightarrow> string \<Rightarrow> nat \<Rightarrow> nat \<Rightarrow> (nat \<times> mstate) option" where
  "match_from r s i 0 =
     (case ms r (i, drop i s, []) of [] \<Rightarrow> None | st # _ \<Rightarrow> Some (i, st))"
| "match_from r s i (Suc k) =
     (case ms r (i, drop i s, []) of [] \<Rightarrow> match_from r s (Suc i) k | st # _ \<Rightarrow> Some (i, st))"

text \<open>
  \<open>regex.exec(s)\<close>: \<open>null\<close> (here \<open>None\<close>) or the array of the whole match followed by one
  entry per capture group.
\<close>

definition regex_exec :: "rx \<Rightarrow> string \<Rightarrow> string option list option" where
  "regex_exec r s =
     (case match_from r s 0 (length s) of
        None \<Rightarrow> None
      | Some (i, st) \<Rightarrow>
          Some (Some (take (fst st - i) (drop i s))
                # map (\<lambda>k. map_of (snd (snd st)) k) [1 ..< Suc (ngroups r)]))"

definition regex_test :: "rx \<Rightarrow> string \<Rightarrow> bool" where
  "regex_test r s = (regex_exec r s \<noteq> None)"

definition lits :: "string \<Rightarrow> rx" where
  "lits s = foldr (\<lambda>c r. Seq (Lit c) r) s Eps"

definition seqs :: "rx list \<Rightarrow> rx" where
  "seqs rs = foldr Seq rs Eps"

text \<open>The class \<open>[-\w]\<close>.\<close>

definition hyphen_word :: rx where
  "hyphen_word =
     Cls False [(CHR ''-'', CHR ''-''), (CHR ''a'', CHR ''z''), (CHR ''A'', CHR ''Z''),
                (CHR ''0'', CHR ''9''), (CHR ''_'', CHR ''_'')]"

text \<open>The common prefix \<open>^arn:aws[-\w]{0,10}?:\<close> of the ARN patterns.\<close>

definition arn_prefix :: "rx list" where
  "arn_prefix = [Bol, lits ''arn:aws'', Rep 0 (Some 10) False hyphen_word, Lit CHR '':'']"

text \<open>\<open>^arn:aws[-\w]{0,10}?:ram:.+\<close> (constant.mjs, and inline in two handlers).\<close>

definition RESOURCE_SHARE_ARN_REGEX :: rx where
  "RESOURCE_SHARE_ARN_REGEX = seqs (arn_prefix @ [lits ''ram:'', Rep 1 None True Dot])"

text \<open>\<open>^arn:aws[-\w]{0,10}?:ram:([^:]+):.+\<close> (getResourceShareRegion).\<close>

definition resourceShareRegionRegex :: rx where
  "resourceShareRegionRegex =
     seqs (arn_prefix @
       [lits ''ram:'', Grp 1 (Rep 1 None True (Cls True [(CHR '':'', CHR '':'')])),
        Lit CHR '':'', Rep 1 None True Dot])"

text \<open>\<open>[a-z]+(-[a-z]+)+-\d\<close> (validateRegion); not anchored.\<close>

definition regionRegex :: rx where
  "regionRegex =
     seqs [Rep 1 None True (Cls False [(CHR ''a'', CHR ''z'')]),
           Rep 1 None True
             (Grp 1 (Seq (Lit CHR ''-'') (Rep 1 None True (Cls False [(CHR ''a'', CHR ''z'')])))),
           Lit CHR ''-'', Cls False [(CHR ''0'', CHR ''9'')]]"

text \<open>\<open>^arn:aws[-\w]{0,10}?:glue:.+:database\/.+\<close> (getDatabaseArnParts).\<close>

definition glueDatabaseRegex :: rx where
  "glueDatabaseRegex =
     seqs (arn_prefix @
       [lits ''glue:'', Rep 1 None True Dot, lits '':database/'', Rep 1 None True Dot])"

text \<open>\<open>^arn:aws[-\w]{0,10}?:glue:[^:]+:[^:]+:database\/(.+)$\<close>.\<close>

definition DATABASE_NAME_CAPTURE_REGEX :: rx where
  "DATABASE_NAME_CAPTURE_REGEX =
     seqs (arn_prefix @
       [lits ''glue:'', Rep 1 None True (Cls True [(CHR '':'', CHR '':'')]), Lit CHR '':'',
        Rep 1 None True (Cls True [(CHR '':'', CHR '':'')]), lits '':database/'',
        Grp 1 (Rep 1 None True Dot), Eol])"

text \<open>\<open>^arn:aws[-\w]{0,10}?:glue:[^:]+:[^:]+:table\/[^\/]+\/(.+)$\<close>.\<close>

definition TABLE_NAME_CAPTURE_REGEX :: rx where
  "TABLE_NAME_CAPTURE_REGEX =
     seqs (arn_prefix @
       [lits ''glue:'', Rep 1 None True (Cls True [(CHR '':'', CHR '':'')]), Lit CHR '':'',
        Rep 1 None True (Cls True [(CHR '':'', CHR '':'')]), lits '':table/'',
        Rep 1 None True (Cls True [(CHR ''/'', CHR ''/'')]), Lit CHR ''/'',
        Grp 1 (Rep 1 None True Dot), Eol])"

text \<open>\<open>^arn:aws[-\w]{0,10}?:cloudformation:[^:]+:(\d{12}):(.+)$\<close>.\<close>

definition ACCOUNT_ID_FROM_STACK_REGEX :: rx where
  "ACCOUNT_ID_FROM_STACK_REGEX =
     seqs (arn_prefix @
       [lits ''cloudformation:'', Rep 1 None True (Cls True [(CHR '':'', CHR '':'')]),
        Lit CHR '':'', Grp 1 (Rep 12 (Some 12) True (Cls False [(CHR ''0'', CHR ''9'')])),
        Lit CHR '':'', Grp 2 (Rep 1 None True Dot), Eol])"

text \<open>
  The pattern of validateIAMPrincipal is built from the template literal
  \<^verbatim>\<open>`arn:aws[-\w]{0,10}?:iam::${accountId}:.+`\<close>. In a template literal the escape
  \<^verbatim>\<open>\w\<close> is the letter \<open>w\<close>, so the class that reaches \<open>new RegExp\<close> is \<open>[-w]\<close>; the
  pattern is not anchored. The account id is interpolated as text (it is twelve digits
  when it comes from \<open>ACCOUNT_ID_FROM_STACK_REGEX\<close>).
\<close>

definition iamPrincipalRegex :: "string \<Rightarrow> rx" where
  "iamPrincipalRegex accountId =
     seqs [lits ''arn:aws'',
           Rep 0 (Some 10) False (Cls False [(CHR ''-'', CHR ''-''), (CHR ''w'', CHR ''w'')]),
           lits '':iam::'', lits accountId, Lit CHR '':'', Rep 1 None True Dot]"

text \<open>\<open>^[a-z0-9][a-z0-9-]{1,61}[a-z0-9]$\<close> (ATHENA_RESULT_BUCKET_PARAMETER.AllowedPattern).\<close>

definition bucketRegex :: rx where
  "bucketRegex =
     seqs [Bol, Cls False [(CHR ''a'', CHR ''z''), (CHR ''0'', CHR ''9'')],
           Rep 1 (Some 61) True
             (Cls False [(CHR ''a'', CHR ''z''), (CHR ''0'', CHR ''9''), (CHR ''-'', CHR ''-'')]),
           Cls False [(CHR ''a'', CHR ''z''), (CHR ''0'', CHR ''9'')], Eol]"

text \<open>\<open>.+\<close> (STACK_ID_PARAMETER.AllowedPattern).\<close>

definition stackIdRegex :: rx where
  "stackIdRegex = Rep 1 None True Dot"


section \<open>Provider commands, responses and the invocation's world\<close>

datatype ResourceShareInvitationStatus = PENDING | ACCEPTED | REJECTED | EXPIRED

record ResourceShareInvitation =
  status :: "ResourceShareInvitationStatus option"
  resourceShareInvitationArn :: "string option"

record Resource =
  arn :: "string option"

text \<open>
  The data lake settings object: the administrators (each \<open>{DataLakePrincipalIdentifier}\<close>
  object is represented by its identifier) and every other field of the object, by name.
\<close>

record DataLakeSettings =
  DataLakeAdmins :: "string list option"
  otherFields :: "(string \<times> string) list"

record Parameter =
  Name :: string
  Description :: string
  Type :: string
  AllowedPattern :: string

datatype exception_class =
    ResourceShareInvitationAlreadyAcceptedException
  | AlreadyExistsException
  | ParameterAlreadyExists
  | OtherException string

text \<open>
  What a handler can throw: \<open>new Error(message)\<close>, a \<open>TypeError\<close> of the runtime (a
  property read on \<open>undefined\<close>, with the runtime's message), or the exception with which
  the SDK rejects a \<open>send\<close> (its class and the provider's message).
\<close>

datatype thrown =
    JsError string
  | JsTypeError string
  | ServiceException exception_class string

datatype client = RAMClient jsval | GlueClient jsval | LakeFormationClient jsval | SSMClient jsval

datatype command =
    GetResourceShareInvitationsCommand jsval
  | ListResourcesCommand jsval "string option"
  | AcceptResourceShareInvitationCommand "string option"
  | CreateDatabaseCommand "string option" "string option"
  | GetDataLakeSettingsCommand
  | PutDataLakeSettingsCommand DataLakeSettings
  | GrantPermissionsCommand string "string option"
  | PutParameterCommand Parameter jsval
  | GetParameterCommand string
  | DeleteParametersCommand "string list"

datatype response =
    Rejected exception_class string
  | GetResourceShareInvitationsResponse "ResourceShareInvitation list"
  | ListResourcesResponse "Resource list"
  | GetDataLakeSettingsResponse "DataLakeSettings option"
  | GetParameterResponse "string option"
  | Fulfilled

type_synonym interaction = "client \<times> command \<times> response"

text \<open>
  The provider is any function that answers a command, given the client it is sent
  through and the interactions of the invocation so far. Nothing is assumed about it.
\<close>

type_synonym provider = "interaction list \<Rightarrow> client \<Rightarrow> command \<Rightarrow> response"

text \<open>
  The world of one invocation: the commands sent with their responses, and the lines
  that saveParameter writes with \<open>console.error\<close> (the remaining console output, progress
  messages and printed exceptions, is not part of the model).
\<close>

record world =
  sent :: "interaction list"
  console_error :: "string list"

definition world0 :: world where
  "world0 = \<lparr>sent = [], console_error = []\<rparr>"

type_synonym 'a io = "world \<Rightarrow> (thrown + 'a) \<times> world"

definition io_return :: "'a \<Rightarrow> 'a io" where
  "io_return x w = (Inr x, w)"

definition io_throw :: "thrown \<Rightarrow> 'a io" where
  "io_throw e w = (Inl e, w)"

definition io_bind :: "'a io \<Rightarrow> ('a \<Rightarrow> 'b io) \<Rightarrow> 'b io" where
  "io_bind m f w = (case m w of (Inl e, w') \<Rightarrow> (Inl e, w') | (Inr x, w') \<Rightarrow> f x w')"

definition io_catch :: "'a io \<Rightarrow> (thrown \<Rightarrow> 'a io) \<Rightarrow> 'a io" where
  "io_catch m h w = (case m w of (Inl e, w') \<Rightarrow> h e w' | (Inr x, w') \<Rightarrow> (Inr x, w'))"

text \<open>\<open>await client.send(command)\<close>: the interaction is recorded; a rejection is thrown.\<close>

definition send :: "provider \<Rightarrow> client \<Rightarrow> command \<Rightarrow> response io" where
  "send p c cmd w =
     (let r = p (sent w) c cmd;
          w' = w\<lparr>sent := sent w @ [(c, cmd, r)]\<rparr>
      in (case r of Rejected k msg \<Rightarrow> (Inl (ServiceException k msg), w')
                  | _ \<Rightarrow> (Inr r, w')))"

definition console_error_line :: "string \<Rightarrow> unit io" where
  "console_error_line s w = (Inr (), w\<lparr>console_error := console_error w @ [s]\<rparr>)"

text \<open>Reading \<open>response.resources\<close> off a fulfilled response.\<close>

definition resources_of :: "response \<Rightarrow> Resource list io" where
  "resources_of response =
     (case response of ListResourcesResponse rs \<Rightarrow> io_return rs
                     | _ \<Rightarrow> io_throw (JsTypeError
                           ''Cannot read properties of undefined (reading 'length')''))"


section \<open>Events, context and the response to CloudFormation\<close>

record ResourceProperties =
  ResourceShareArn :: jsval
  LakeFormationPrincipals :: jsval
  LambdaRoleArn :: string
  DTRegion :: jsval
  AthenaResultsBucket :: jsval
  StackId_prop :: jsval

record event =
  RequestType :: string
  ResourceProperties :: ResourceProperties
  StackId :: jsval
  RequestId :: string
  LogicalResourceId :: string
  PhysicalResourceId :: "string option"
  ResponseURL :: string

record lambda_context =
  logGroupName :: string
  logStreamName :: string

record process_env =
  AWS_REGION :: "string option"

record response_body =
  body_Status :: string
  body_Reason :: string
  body_PhysicalResourceId :: string
  body_StackId :: jsval
  body_RequestId :: string
  body_LogicalResourceId :: string

text \<open>The \<open>reason\<close> passed to sendResponse: a message, or the exception that was caught.\<close>

datatype reason = Message string | Exception thrown

fun thrown_to_string :: "thrown \<Rightarrow> string" where
  "thrown_to_string (JsError msg) =
     (if msg = [] then ''Error'' else ''Error: '' @ msg)"
| "thrown_to_string (JsTypeError msg) =
     (if msg = [] then ''TypeError'' else ''TypeError: '' @ msg)"
| "thrown_to_string (ServiceException k msg) =
     (let name = (case k of
                    ResourceShareInvitationAlreadyAcceptedException \<Rightarrow>
                      ''ResourceShareInvitationAlreadyAcceptedException''
                  | AlreadyExistsException \<Rightarrow> ''AlreadyExistsException''
                  | ParameterAlreadyExists \<Rightarrow> ''ParameterAlreadyExists''
                  | OtherException n \<Rightarrow> n)
      in if msg = [] then name else name @ '': '' @ msg)"

fun reason_truthy :: "reason option \<Rightarrow> bool" where
  "reason_truthy None = False"
| "reason_truthy (Some (Message s)) = (s \<noteq> [])"
| "reason_truthy (Some (Exception e)) = True"

fun reason_to_string :: "reason option \<Rightarrow> string" where
  "reason_to_string None = ''undefined''"
| "reason_to_string (Some (Message s)) = s"
| "reason_to_string (Some (Exception e)) = thrown_to_string e"

definition composeReason :: "process_env \<Rightarrow> lambda_context \<Rightarrow> reason option \<Rightarrow> string" where
  "composeReason penv ctx rsn =
     (let region = AWS_REGION penv;
          cwLogUrl = ''https://console.aws.amazon.com/cloudwatch/home?region=''
                     @ ToString (of_opt region) @ ''#logEventViewer:group='' @ logGroupName ctx
                     @ '';stream='' @ logStreamName ctx;
          cwLogStreamMessage = ''See the details in CloudWatch Log Stream: '' @ cwLogUrl
      in if reason_truthy rsn then reason_to_string rsn @ '' '' @ cwLogStreamMessage
         else cwLogStreamMessage)"

text \<open>
  sendResponse builds the body and puts it to the pre-signed URL of the event; the body
  is the handler's result here. Three handlers report the log stream name as the
  physical resource id; the database handler passes the id it wants reported
  (\<open>physicalResourceId ?? context.logStreamName\<close>).
\<close>

definition sendResponse ::
  "process_env \<Rightarrow> event \<Rightarrow> lambda_context \<Rightarrow> string \<Rightarrow> string option \<Rightarrow> reason option
    \<Rightarrow> response_body" where
  "sendResponse penv ev ctx responseStatus physicalResourceId rsn =
     \<lparr>body_Status = responseStatus,
      body_Reason = composeReason penv ctx rsn,
      body_PhysicalResourceId =
        (case physicalResourceId of None \<Rightarrow> logStreamName ctx | Some i \<Rightarrow> i),
      body_StackId = StackId ev,
      body_RequestId = RequestId ev,
      body_LogicalResourceId = LogicalResourceId ev\<rparr>"

definition exception_reason :: "thrown option \<Rightarrow> reason option" where
  "exception_reason x = map_option Exception x"


section \<open>Input validation shared by the handlers\<close>

text \<open>
  validateResourceShareArn, getResourceShareArn, getResourceShareRegion and
  validateRegion are repeated in the handlers with the same pattern and message.
\<close>

definition validateResourceShareArn :: "jsval \<Rightarrow> unit io" where
  "validateResourceShareArn a =
     (if \<not> regex_test RESOURCE_SHARE_ARN_REGEX (ToString a)
      then io_throw (JsError ''Invalid ResourceShareArn.'')
      else io_return ())"

definition getResourceShareArn :: "event \<Rightarrow> jsval io" where
  "getResourceShareArn ev =
     (let resourceShareArn = ResourceShareArn (ResourceProperties ev)
      in io_bind (validateResourceShareArn resourceShareArn) (\<lambda>_. io_return resourceShareArn))"

definition validateRegion :: "jsval \<Rightarrow> unit io" where
  "validateRegion region =
     (if \<not> regex_test regionRegex (ToString region)
      then io_throw (JsError (''Invalid region: '' @ ToString region @ ''.''))
      else io_return ())"

definition getResourceShareRegion :: "jsval \<Rightarrow> jsval io" where
  "getResourceShareRegion resourceShareArn =
     (case regex_exec resourceShareRegionRegex (ToString resourceShareArn) of
        None \<Rightarrow> io_throw (JsError ''Could not parse region from resource share arn.'')
      | Some captured \<Rightarrow>
          if length captured < 2
          then io_throw (JsError ''Could not parse region from resource share arn.'')
          else (let region = of_opt (captured ! 1)
                in io_bind (validateRegion region) (\<lambda>_. io_return region)))"


section \<open>ShareAcceptor (resource share acceptor handler)\<close>

definition resourceShareAlreadyAccepted :: "provider \<Rightarrow> client \<Rightarrow> jsval \<Rightarrow> bool io" where
  "resourceShareAlreadyAccepted p ramClient resourceShareArn =
     io_bind (send p ramClient (ListResourcesCommand resourceShareArn None)) (\<lambda>response.
     io_bind (resources_of response) (\<lambda>resources.
       if length resources = 0 then io_return False else io_return True))"

definition getInvitation ::
  "provider \<Rightarrow> client \<Rightarrow> jsval
    \<Rightarrow> (ResourceShareInvitationStatus option \<times> string option) io" where
  "getInvitation p ramClient resourceShareArn =
     io_bind (send p ramClient (GetResourceShareInvitationsCommand resourceShareArn))
       (\<lambda>response.
          case response of
            GetResourceShareInvitationsResponse resourceShareInvitations \<Rightarrow>
              if 0 < length resourceShareInvitations \<and>
                 truthy (resourceShareInvitationArn (resourceShareInvitations ! 0))
              then io_return (status (resourceShareInvitations ! 0),
                              resourceShareInvitationArn (resourceShareInvitations ! 0))
              else io_bind (resourceShareAlreadyAccepted p ramClient resourceShareArn)
                     (\<lambda>accepted.
                        if accepted then io_return (Some ACCEPTED, None)
                        else io_throw (JsError
                          ''Invalid ResourceShareArn: ResourceShareInvitationArn not found.''))
          | _ \<Rightarrow> io_throw (JsTypeError
                ''Cannot read properties of undefined (reading 'length')''))"

definition acceptInvitation :: "provider \<Rightarrow> client \<Rightarrow> string option \<Rightarrow> unit io" where
  "acceptInvitation p ramClient inviteArn =
     io_catch
       (io_bind (send p ramClient (AcceptResourceShareInvitationCommand inviteArn))
          (\<lambda>_. io_return ()))
       (\<lambda>error. case error of
            ServiceException ResourceShareInvitationAlreadyAcceptedException _ \<Rightarrow> io_return ()
          | _ \<Rightarrow> io_throw error)"

definition handleInvitation ::
  "provider \<Rightarrow> client \<Rightarrow> ResourceShareInvitationStatus option \<Rightarrow> string option \<Rightarrow> unit io" where
  "handleInvitation p ramClient invitationStatus invitationArn =
     (if invitationStatus = Some PENDING then acceptInvitation p ramClient invitationArn
      else if invitationStatus = Some EXPIRED then io_throw (JsError ''Invitation has expired.'')
      else if invitationStatus = Some ACCEPTED then io_return ()
      else if invitationStatus = Some REJECTED
           then io_throw (JsError ''Invitation has already been rejected.'')
      else io_return ())"

definition constructRAMClient :: "jsval \<Rightarrow> client" where
  "constructRAMClient region = RAMClient region"

definition acceptor_startCreate ::
  "provider \<Rightarrow> event \<Rightarrow> world \<Rightarrow> (string \<times> thrown option) \<times> world" where
  "acceptor_startCreate p ev w =
     (case io_bind (getResourceShareArn ev) (\<lambda>resourceShareArn.
           io_bind (getResourceShareRegion resourceShareArn) (\<lambda>region.
           let ramClient = constructRAMClient region in
           io_bind (getInvitation p ramClient resourceShareArn) (\<lambda>(invitationStatus, invitationArn).
           handleInvitation p ramClient invitationStatus invitationArn))) w of
        (Inr _, w') \<Rightarrow> ((''SUCCESS'', None), w')
      | (Inl exception, w') \<Rightarrow> ((''FAILED'', Some exception), w'))"

definition acceptor_handler ::
  "provider \<Rightarrow> process_env \<Rightarrow> event \<Rightarrow> lambda_context \<Rightarrow> response_body \<times> world" where
  "acceptor_handler p penv ev ctx =
     (if RequestType ev = ''Update''
      then (sendResponse penv ev ctx ''FAILED'' None
              (Some (Message ''RequestType is Update which is not supported.'')), world0)
      else if RequestType ev = ''Create''
      then (case acceptor_startCreate p ev world0 of
              ((result, rsn), w) \<Rightarrow>
                (sendResponse penv ev ctx result None (exception_reason rsn), w))
      else if RequestType ev = ''Delete''
      then (sendResponse penv ev ctx ''SUCCESS'' None None, world0)
      else (sendResponse penv ev ctx ''FAILED'' None
              (Some (Message (''Received unknown RequestType '' @ RequestType ev @ ''.''))),
            world0))"


section \<open>CatalogDatabaseProvisioner (Glue database handler)\<close>

definition getSharedGlueDatabaseArn :: "provider \<Rightarrow> client \<Rightarrow> jsval \<Rightarrow> string option io" where
  "getSharedGlueDatabaseArn p ramClient resourceShareArn =
     io_bind (send p ramClient (ListResourcesCommand resourceShareArn (Some ''glue:database'')))
       (\<lambda>response.
     io_bind (resources_of response) (\<lambda>resources.
       if length resources = 0
       then io_throw (JsError ''Found no resources associated with resource share ARN.'')
       else io_return (arn (resources ! 0))))"

definition getDatabaseArnParts :: "string option \<Rightarrow> (string option \<times> string option) io" where
  "getDatabaseArnParts glueDatabaseArn =
     (if \<not> regex_test glueDatabaseRegex (ToString (of_opt glueDatabaseArn))
      then io_throw (JsError
             (''Glue database discovered via RAM does not match expected ARN format: ''
              @ ToString (of_opt glueDatabaseArn) @ ''.''))
      else (case glueDatabaseArn of
              None \<Rightarrow> io_throw (JsTypeError
                    ''Cannot read properties of undefined (reading 'split')'')
            | Some a \<Rightarrow>
                (let arnParts = split CHR '':'' a;
                     securityLakeAdminAccount = nth_opt arnParts 4
                 in (case nth_opt arnParts 5 of
                       None \<Rightarrow> io_throw (JsTypeError
                             ''Cannot read properties of undefined (reading 'split')'')
                     | Some part \<Rightarrow>
                         io_return (securityLakeAdminAccount,
                                    nth_opt (split CHR ''/'' part) 1)))))"

definition createGlueDatabase ::
  "provider \<Rightarrow> client \<Rightarrow> string option \<Rightarrow> string option \<Rightarrow> unit io" where
  "createGlueDatabase p glueClient securityLakeAdminAccount databaseName =
     io_catch
       (io_bind (send p glueClient (CreateDatabaseCommand databaseName securityLakeAdminAccount))
          (\<lambda>_. io_return ()))
       (\<lambda>e. case e of
            ServiceException AlreadyExistsException _ \<Rightarrow> io_return ()
          | _ \<Rightarrow> io_throw e)"

definition gluedb_startCreate ::
  "provider \<Rightarrow> process_env \<Rightarrow> event
    \<Rightarrow> world \<Rightarrow> (string \<times> string option \<times> thrown option) \<times> world" where
  "gluedb_startCreate p penv ev w =
     (let region = of_opt (AWS_REGION penv);
          ramClient = RAMClient region;
          glueClient = GlueClient region
      in case io_bind (getResourceShareArn ev) (\<lambda>resourceShareArn.
              io_bind (getSharedGlueDatabaseArn p ramClient resourceShareArn)
                (\<lambda>sharedGlueDatabaseArn.
              io_bind (getDatabaseArnParts sharedGlueDatabaseArn)
                (\<lambda>(securityLakeAdminAccount, databaseName).
              io_bind (createGlueDatabase p glueClient securityLakeAdminAccount databaseName)
                (\<lambda>_. io_return databaseName)))) w of
           (Inr databaseName, w') \<Rightarrow> ((''SUCCESS'', databaseName, None), w')
         | (Inl exception, w') \<Rightarrow> ((''FAILED'', None, Some exception), w'))"

definition gluedb_handler ::
  "provider \<Rightarrow> process_env \<Rightarrow> event \<Rightarrow> lambda_context \<Rightarrow> response_body \<times> world" where
  "gluedb_handler p penv ev ctx =
     (if RequestType ev = ''Update''
      then (sendResponse penv ev ctx ''FAILED'' None
              (Some (Message ''RequestType is Update which is not supported.'')), world0)
      else if RequestType ev = ''Create''
      then (case gluedb_startCreate p penv ev world0 of
              ((result, physicalResourceId, rsn), w) \<Rightarrow>
                (sendResponse penv ev ctx result physicalResourceId (exception_reason rsn), w))
      else if RequestType ev = ''Delete''
      then (sendResponse penv ev ctx ''SUCCESS'' (PhysicalResourceId ev) None, world0)
      else (sendResponse penv ev ctx ''FAILED'' None
              (Some (Message (''Unrecognized cloudformation request type received. ''
                 @ ''This custom resource only supports creation and deletion.''))),
            world0))"


section \<open>Database discovery shared by the table and parameter handlers\<close>

definition getDatabaseNameArn :: "provider \<Rightarrow> client \<Rightarrow> jsval \<Rightarrow> string option io" where
  "getDatabaseNameArn p ramClient resourceShareArn =
     io_bind (send p ramClient (ListResourcesCommand resourceShareArn (Some ''glue:database'')))
       (\<lambda>response.
     io_bind (resources_of response) (\<lambda>resources.
       if length resources = 0
       then io_throw (JsError ''Found no database associated with resource share ARN.'')
       else io_return (arn (resources ! 0))))"

definition getDatabaseName :: "provider \<Rightarrow> client \<Rightarrow> jsval \<Rightarrow> string option io" where
  "getDatabaseName p ramClient resourceShareArn =
     io_bind (getDatabaseNameArn p ramClient resourceShareArn) (\<lambda>databaseArn.
       case regex_exec DATABASE_NAME_CAPTURE_REGEX (ToString (of_opt databaseArn)) of
         None \<Rightarrow> io_throw (JsError ''Could not parse database from database arn.'')
       | Some captured \<Rightarrow>
           if length captured < 2
           then io_throw (JsError ''Could not parse database from database arn.'')
           else io_return (captured ! 1))"


section \<open>TablePermissionGranter (Glue table handler)\<close>

definition getAccountId :: "jsval \<Rightarrow> string option io" where
  "getAccountId stackId =
     (case regex_exec ACCOUNT_ID_FROM_STACK_REGEX (ToString stackId) of
        None \<Rightarrow> io_throw (JsError ''Could not parse account id from stack ID.'')
      | Some captured \<Rightarrow>
          if length captured < 2
          then io_throw (JsError ''Could not parse account id from stack ID.'')
          else io_return (captured ! 1))"

definition validateIAMPrincipal :: "string \<Rightarrow> string option \<Rightarrow> unit io" where
  "validateIAMPrincipal iamPrincipal accountId =
     (if \<not> regex_test (iamPrincipalRegex (ToString (of_opt accountId))) iamPrincipal
      then io_throw (JsError
             (''Invalid IAM principal, or IAM principal does not belong to account ''
              @ ToString (of_opt accountId) @ ''.''))
      else io_return ())"

fun validateEach :: "string list \<Rightarrow> string option \<Rightarrow> unit io" where
  "validateEach [] accountId = io_return ()"
| "validateEach (iamPrincipal # principals) accountId =
     io_bind (validateIAMPrincipal iamPrincipal accountId)
       (\<lambda>_. validateEach principals accountId)"

fun Array_isArray :: "jsval \<Rightarrow> bool" where
  "Array_isArray (JArray xs) = True"
| "Array_isArray _ = False"

fun elements :: "jsval \<Rightarrow> string list" where
  "elements (JArray xs) = xs"
| "elements _ = []"

definition validatePrincipals :: "jsval \<Rightarrow> string option \<Rightarrow> unit io" where
  "validatePrincipals principals accountId =
     (if \<not> Array_isArray principals
      then io_throw (JsError ''LakeFormationPrincipals is not an array.'')
      else validateEach (elements principals) accountId)"

definition getLakeFormationDataLakePrincipals :: "event \<Rightarrow> string list io" where
  "getLakeFormationDataLakePrincipals ev =
     (let principals = LakeFormationPrincipals (ResourceProperties ev) in
      io_bind (getAccountId (StackId ev)) (\<lambda>accountId.
      io_bind (validatePrincipals principals accountId) (\<lambda>_.
        io_return (new_Set (elements principals)))))"

definition buildClients :: "jsval \<Rightarrow> client \<times> client" where
  "buildClients resourceShareRegion =
     (RAMClient resourceShareRegion, LakeFormationClient resourceShareRegion)"

definition getLakeFormationDataLakeSettings ::
  "provider \<Rightarrow> client \<Rightarrow> DataLakeSettings option io" where
  "getLakeFormationDataLakeSettings p lakeFormationClient =
     io_bind (send p lakeFormationClient GetDataLakeSettingsCommand) (\<lambda>response.
       case response of
         GetDataLakeSettingsResponse s \<Rightarrow> io_return s
       | _ \<Rightarrow> io_return None)"

definition buildDataLakeAdmins :: "string list option \<Rightarrow> string list \<Rightarrow> string list io" where
  "buildDataLakeAdmins existingDataLakeAdmins iamPrincipals =
     (case existingDataLakeAdmins of
        None \<Rightarrow> io_throw (JsTypeError
              ''Cannot read properties of undefined (reading 'map')'')
      | Some existingPrincipals \<Rightarrow> io_return (new_Set (existingPrincipals @ iamPrincipals)))"

definition buildDataLakeSettings ::
  "DataLakeSettings option \<Rightarrow> string list \<Rightarrow> DataLakeSettings io" where
  "buildDataLakeSettings existingDataLakeSettings iamPrincipals =
     (case existingDataLakeSettings of
        None \<Rightarrow> io_throw (JsTypeError
              ''Cannot read properties of undefined (reading 'DataLakeAdmins')'')
      | Some existing \<Rightarrow>
          io_bind (buildDataLakeAdmins (DataLakeAdmins existing) iamPrincipals)
            (\<lambda>newDatalakeAdmins.
               io_return (existing\<lparr>DataLakeAdmins := Some newDatalakeAdmins\<rparr>)))"

definition setLakeFormationDataLakeSettings ::
  "provider \<Rightarrow> client \<Rightarrow> DataLakeSettings \<Rightarrow> unit io" where
  "setLakeFormationDataLakeSettings p lakeFormationClient dataLakeSettings =
     io_bind (send p lakeFormationClient (PutDataLakeSettingsCommand dataLakeSettings))
       (\<lambda>_. io_return ())"

fun grantLakeFormationPermission ::
  "provider \<Rightarrow> client \<Rightarrow> string option \<Rightarrow> string list \<Rightarrow> unit io" where
  "grantLakeFormationPermission p lakeFormationClient databaseName [] = io_return ()"
| "grantLakeFormationPermission p lakeFormationClient databaseName (iamPrincipal # principals) =
     io_bind (send p lakeFormationClient (GrantPermissionsCommand iamPrincipal databaseName))
       (\<lambda>_. grantLakeFormationPermission p lakeFormationClient databaseName principals)"

definition getCurrentCallerIdentityArn :: "event \<Rightarrow> string" where
  "getCurrentCallerIdentityArn ev = LambdaRoleArn (ResourceProperties ev)"

definition gluetable_startCreate ::
  "provider \<Rightarrow> process_env \<Rightarrow> event \<Rightarrow> world \<Rightarrow> (string \<times> thrown option) \<times> world" where
  "gluetable_startCreate p penv ev w =
     (case io_bind (getResourceShareArn ev) (\<lambda>resourceShareArn.
           let currentRegion = of_opt (AWS_REGION penv);
               ramClient = fst (buildClients currentRegion);
               lakeFormationClient = snd (buildClients currentRegion) in
           io_bind (getLakeFormationDataLakePrincipals ev) (\<lambda>lakeformationDataLakePrincipals.
           io_bind (getDatabaseName p ramClient resourceShareArn) (\<lambda>databaseName.
           io_bind (getLakeFormationDataLakeSettings p lakeFormationClient)
             (\<lambda>existingDataLakeSettings.
           io_bind (buildDataLakeSettings existingDataLakeSettings
                      lakeformationDataLakePrincipals) (\<lambda>newDataLakeSettings.
           let currentCallerIdentityArn = getCurrentCallerIdentityArn ev in
           io_bind (buildDataLakeSettings (Some newDataLakeSettings)
                      [currentCallerIdentityArn]) (\<lambda>temporaryDataLakeSettings.
           io_bind (setLakeFormationDataLakeSettings p lakeFormationClient
                      temporaryDataLakeSettings) (\<lambda>_.
           io_bind (grantLakeFormationPermission p lakeFormationClient databaseName
                      lakeformationDataLakePrincipals) (\<lambda>_.
           setLakeFormationDataLakeSettings p lakeFormationClient
             newDataLakeSettings)))))))) w of
        (Inr _, w') \<Rightarrow> ((''SUCCESS'', None), w')
      | (Inl exception, w') \<Rightarrow> ((''FAILED'', Some exception), w'))"

definition gluetable_handler ::
  "provider \<Rightarrow> process_env \<Rightarrow> event \<Rightarrow> lambda_context \<Rightarrow> response_body \<times> world" where
  "gluetable_handler p penv ev ctx =
     (if RequestType ev = ''Update''
      then (sendResponse penv ev ctx ''FAILED'' None
              (Some (Message ''RequestType is Update which is not supported.'')), world0)
      else if RequestType ev = ''Create''
      then (case gluetable_startCreate p penv ev world0 of
              ((result, rsn), w) \<Rightarrow>
                (sendResponse penv ev ctx result None (exception_reason rsn), w))
      else if RequestType ev = ''Delete''
      then (sendResponse penv ev ctx ''SUCCESS'' None None, world0)
      else (sendResponse penv ev ctx ''FAILED'' None
              (Some (Message (''Unrecognized cloudformation request type received. ''
                 @ ''This custom resource only supports creation and deletion.''))),
            world0))"


section \<open>ParameterPublisher (SSM parameter handler)\<close>

definition RESOURCE_SHARE_ARN_PARAMETER :: Parameter where
  "RESOURCE_SHARE_ARN_PARAMETER =
     \<lparr>Name = ''/Detective/SLI/ResourceShareArn'',
      Description = ''Security Lake resource share arn'',
      Type = ''String'',
      AllowedPattern = ''^arn:aws[-'' @ [CHR 0x5C] @ ''w]{0,10}?:ram:.+''\<rparr>"

definition ATHENA_RESULT_BUCKET_PARAMETER :: Parameter where
  "ATHENA_RESULT_BUCKET_PARAMETER =
     \<lparr>Name = ''/Detective/SLI/S3Bucket'',
      Description = ''Athena result bucket'',
      Type = ''String'',
      AllowedPattern = ''^[a-z0-9][a-z0-9-]{1,61}[a-z0-9]$''\<rparr>"

definition TABLE_NAMES_PARAMETER :: Parameter where
  "TABLE_NAMES_PARAMETER =
     \<lparr>Name = ''/Detective/SLI/TableNames'',
      Description = ''List of table names in Security Lake resource share arn'',
      Type = ''StringList'',
      AllowedPattern = ''.+''\<rparr>"

definition DATABASE_NAME_PARAMETER :: Parameter where
  "DATABASE_NAME_PARAMETER =
     \<lparr>Name = ''/Detective/SLI/DatabaseName'',
      Description = ''Database name in Security Lake resource share arn'',
      Type = ''String'',
      AllowedPattern = ''.+''\<rparr>"

definition STACK_ID_PARAMETER :: Parameter where
  "STACK_ID_PARAMETER =
     \<lparr>Name = ''/Detective/SLI/StackId'',
      Description = ''Stack Id of security lake integration stack'',
      Type = ''String'',
      AllowedPattern = ''.+''\<rparr>"

definition getDTRegion :: "event \<Rightarrow> jsval io" where
  "getDTRegion ev =
     (let region = DTRegion (ResourceProperties ev)
      in io_bind (validateRegion region) (\<lambda>_. io_return region))"

definition getAthenaResultBucket :: "event \<Rightarrow> jsval io" where
  "getAthenaResultBucket ev =
     (let bucketName = AthenaResultsBucket (ResourceProperties ev)
      in if \<not> regex_test bucketRegex (ToString bucketName)
         then io_throw (JsError ''Invalid bucket name.'')
         else io_return bucketName)"

definition getStackId :: "event \<Rightarrow> jsval io" where
  "getStackId ev =
     (let stackId = StackId_prop (ResourceProperties ev)
      in if \<not> regex_test stackIdRegex (ToString stackId)
         then io_throw (JsError ''Invalid stackId.'')
         else io_return stackId)"

definition getTableArns :: "provider \<Rightarrow> client \<Rightarrow> jsval \<Rightarrow> string option list io" where
  "getTableArns p ramClient resourceShareArn =
     io_bind (send p ramClient (ListResourcesCommand resourceShareArn (Some ''glue:table'')))
       (\<lambda>response.
     io_bind (resources_of response) (\<lambda>resources.
       if length resources = 0
       then io_throw (JsError ''Found no table associated with resource share ARN.'')
       else io_return (map arn resources)))"

fun parseTableNames :: "string option list \<Rightarrow> string option list \<Rightarrow> string option list io" where
  "parseTableNames tableNames [] = io_return tableNames"
| "parseTableNames tableNames (tableArn # tableArns) =
     (case regex_exec TABLE_NAME_CAPTURE_REGEX (ToString (of_opt tableArn)) of
        None \<Rightarrow> io_throw (JsError ''Could not parse table name from table arn.'')
      | Some captured \<Rightarrow>
          if length captured < 2
          then io_throw (JsError ''Could not parse table name from table arn.'')
          else parseTableNames (tableNames @ [captured ! 1]) tableArns)"

definition getTableNames :: "provider \<Rightarrow> client \<Rightarrow> jsval \<Rightarrow> string option list io" where
  "getTableNames p ramClient resourceShareArn =
     io_bind (getTableArns p ramClient resourceShareArn) (\<lambda>tableArns.
       parseTableNames [] tableArns)"

text \<open>
  getStackIdParameter returns \<open>response.Parameter.Value\<close>, and \<open>undefined\<close> on any error.
\<close>

definition getStackIdParameter :: "provider \<Rightarrow> client \<Rightarrow> string option io" where
  "getStackIdParameter p ssmClient =
     io_catch
       (io_bind (send p ssmClient (GetParameterCommand (Name STACK_ID_PARAMETER)))
          (\<lambda>response.
             case response of
               GetParameterResponse v \<Rightarrow> io_return v
             | _ \<Rightarrow> io_throw (JsTypeError
                   ''Cannot read properties of undefined (reading 'Value')'')))
       (\<lambda>exception. io_return None)"

definition saveParameter :: "provider \<Rightarrow> client \<Rightarrow> Parameter \<Rightarrow> jsval \<Rightarrow> unit io" where
  "saveParameter p ssmClient parameter parameterValue =
     io_catch
       (io_bind (send p ssmClient (PutParameterCommand parameter parameterValue))
          (\<lambda>_. io_return ()))
       (\<lambda>error.
          io_bind
            (case error of
               ServiceException ParameterAlreadyExists _ \<Rightarrow>
                 io_bind (getStackIdParameter p ssmClient) (\<lambda>stackId.
                   if truthy stackId
                   then console_error_line
                          (''SSM Parameter '' @ Name parameter
                           @ '' already exists, another stack with stack ID ''
                           @ ToString (of_opt stackId)
                           @ '' created by this template already exists, please delete it first.'')
                   else console_error_line
                          (''SSM Parameter '' @ Name parameter
                           @ '' already exists, another stack created by this template could ''
                           @ ''already exist, please delete the existing stack before creating ''
                           @ ''a new one.''))
             | _ \<Rightarrow> io_return ())
            (\<lambda>_. io_throw error))"

text \<open>\<open>tableNameList.join(",")\<close>: an \<open>undefined\<close> element is joined as the empty string.\<close>

definition join_names :: "string option list \<Rightarrow> string" where
  "join_names names = join '','' (map (\<lambda>n. case n of None \<Rightarrow> [] | Some s \<Rightarrow> s) names)"

definition createParameters ::
  "provider \<Rightarrow> event \<Rightarrow> world \<Rightarrow> (string \<times> thrown option) \<times> world" where
  "createParameters p ev w =
     (case io_bind (getResourceShareArn ev) (\<lambda>resourceShareArn.
           io_bind (getResourceShareRegion resourceShareArn) (\<lambda>resourceShareRegion.
           io_bind (getDTRegion ev) (\<lambda>dtRegion.
           io_bind (getAthenaResultBucket ev) (\<lambda>athenaResultBucket.
           io_bind (getStackId ev) (\<lambda>stackId.
           let ramClient = RAMClient resourceShareRegion in
           io_bind (getDatabaseName p ramClient resourceShareArn) (\<lambda>databaseName.
           io_bind (getTableNames p ramClient resourceShareArn) (\<lambda>tableNameList.
           let ssmClient = SSMClient dtRegion in
           io_bind (saveParameter p ssmClient STACK_ID_PARAMETER stackId) (\<lambda>_.
           io_bind (saveParameter p ssmClient RESOURCE_SHARE_ARN_PARAMETER resourceShareArn)
             (\<lambda>_.
           io_bind (saveParameter p ssmClient ATHENA_RESULT_BUCKET_PARAMETER athenaResultBucket)
             (\<lambda>_.
           io_bind (saveParameter p ssmClient DATABASE_NAME_PARAMETER (of_opt databaseName))
             (\<lambda>_.
           saveParameter p ssmClient TABLE_NAMES_PARAMETER
             (JString (join_names tableNameList))))))))))))) w of
        (Inr _, w') \<Rightarrow> ((''SUCCESS'', None), w')
      | (Inl exception, w') \<Rightarrow> ((''FAILED'', Some exception), w'))"

definition deleteSSMParameters :: "provider \<Rightarrow> client \<Rightarrow> string list \<Rightarrow> unit io" where
  "deleteSSMParameters p ssmClient parameterNames =
     io_bind (send p ssmClient (DeleteParametersCommand parameterNames)) (\<lambda>_. io_return ())"

definition deleteParameters ::
  "provider \<Rightarrow> event \<Rightarrow> world \<Rightarrow> (string \<times> thrown option) \<times> world" where
  "deleteParameters p ev w =
     (let parametersToDelete =
            [Name STACK_ID_PARAMETER,
             Name RESOURCE_SHARE_ARN_PARAMETER,
             Name ATHENA_RESULT_BUCKET_PARAMETER,
             Name DATABASE_NAME_PARAMETER,
             Name TABLE_NAMES_PARAMETER]
      in case io_bind (getDTRegion ev) (\<lambda>dtRegion.
              let ssmClient = SSMClient dtRegion in
              deleteSSMParameters p ssmClient parametersToDelete) w of
           (Inr _, w') \<Rightarrow> ((''SUCCESS'', None), w')
         | (Inl exception, w') \<Rightarrow> ((''FAILED'', Some exception), w'))"

definition ssm_handler ::
  "provider \<Rightarrow> process_env \<Rightarrow> event \<Rightarrow> lambda_context \<Rightarrow> response_body \<times> world" where
  "ssm_handler p penv ev ctx =
     (if RequestType ev = ''Update''
      then (sendResponse penv ev ctx ''FAILED'' None
              (Some (Message ''RequestType is Update which is not supported.'')), world0)
      else if RequestType ev = ''Create''
      then (case createParameters p ev world0 of
              ((result, rsn), w) \<Rightarrow>
                (sendResponse penv ev ctx result None (exception_reason rsn), w))
      else if RequestType ev = ''Delete''
      then (case deleteParameters p ev world0 of
              ((result, rsn), w) \<Rightarrow>
                (sendResponse penv ev ctx result None (exception_reason rsn), w))
      else (sendResponse penv ev ctx ''FAILED'' None
              (Some (Message (''Received unknown RequestType '' @ RequestType ev @ ''.''))),
            world0))"


section \<open>Observations on the interactions of an invocation\<close>

fun accepted_invitations :: "interaction list \<Rightarrow> string option list" where
  "accepted_invitations [] = []"
| "accepted_invitations ((c, AcceptResourceShareInvitationCommand a, r) # tr) =
     a # accepted_invitations tr"
| "accepted_invitations (_ # tr) = accepted_invitations tr"

fun granted :: "interaction list \<Rightarrow> string list" where
  "granted [] = []"
| "granted ((c, GrantPermissionsCommand pr db, r) # tr) = pr # granted tr"
| "granted (_ # tr) = granted tr"

fun settings_written :: "interaction list \<Rightarrow> DataLakeSettings list" where
  "settings_written [] = []"
| "settings_written ((c, PutDataLakeSettingsCommand s, r) # tr) = s # settings_written tr"
| "settings_written (_ # tr) = settings_written tr"

fun settings_read :: "interaction list \<Rightarrow> DataLakeSettings list" where
  "settings_read [] = []"
| "settings_read ((c, GetDataLakeSettingsCommand, GetDataLakeSettingsResponse (Some s)) # tr) =
     s # settings_read tr"
| "settings_read (_ # tr) = settings_read tr"

fun deleted_batches :: "interaction list \<Rightarrow> string list list" where
  "deleted_batches [] = []"
| "deleted_batches ((c, DeleteParametersCommand names, r) # tr) = names # deleted_batches tr"
| "deleted_batches (_ # tr) = deleted_batches tr"



text \<open>The parameter writes that the provider rejected, with the exception class and message.\<close>

fun rejected_puts ::
  "interaction list \<Rightarrow> (client \<times> Parameter \<times> jsval \<times> exception_class \<times> string) list" where
  "rejected_puts [] = []"
| "rejected_puts ((c, PutParameterCommand prm v, Rejected k m) # tr) =
     (c, prm, v, k, m) # rejected_puts tr"
| "rejected_puts (_ # tr) = rejected_puts tr"

text \<open>\<open>haystack.includes(needle)\<close> on strings.\<close>

primrec String_includes :: "string \<Rightarrow> string \<Rightarrow> bool" where
  "String_includes [] sub = (sub = [])"
| "String_includes (c # s) sub =
     (take (length sub) (c # s) = sub \<or> String_includes s sub)"


section \<open>ParameterPublisher: notions used to describe a run\<close>

text \<open>
  What getStackIdParameter returns for the provider's answer to the look-up: the value of
  the parameter if the answer carries one, undefined in every other case (a rejection, or an
  answer without \<open>Parameter.Value\<close>).
\<close>

definition stack_id_found :: "response \<Rightarrow> string option" where
  "stack_id_found g = (case g of GetParameterResponse x \<Rightarrow> x | _ \<Rightarrow> None)"

text \<open>
  The line that saveParameter writes with \<open>console.error\<close> when a write collides, for the
  outcome \<open>stackId\<close> of the look-up.
\<close>

definition collision_line :: "Parameter \<Rightarrow> string option \<Rightarrow> string" where
  "collision_line parameter stackId =
     (if truthy stackId
      then ''SSM Parameter '' @ Name parameter
           @ '' already exists, another stack with stack ID ''
           @ ToString (of_opt stackId)
           @ '' created by this template already exists, please delete it first.''
      else ''SSM Parameter '' @ Name parameter
           @ '' already exists, another stack created by this template could ''
           @ ''already exist, please delete the existing stack before creating ''
           @ ''a new one.'')"

text \<open>
  Saving a list of parameters in order, stopping at the first failure. The five saves of
  createParameters are \<open>saveAll\<close> on the list of the five parameters (lemma \<open>five_saves\<close>).
\<close>

fun saveAll :: "provider \<Rightarrow> client \<Rightarrow> (Parameter \<times> jsval) list \<Rightarrow> unit io" where
  "saveAll p c [] = io_return ()"
| "saveAll p c ((prm, v) # rest) = io_bind (saveParameter p c prm v) (\<lambda>_. saveAll p c rest)"


section \<open>Example inputs\<close>

text \<open>Concrete events and providers on which the theorems below are instantiated.\<close>

definition example_event :: event where
  "example_event =
     \<lparr>RequestType = ''Create'',
      ResourceProperties =
        \<lparr>ResourceShareArn = JString ''arn:aws:ram:us-west-2:111111111111:resource-share/abc'',
         LakeFormationPrincipals =
           JArray [''arn:aws:iam::123456789012:role/a'', ''arn:aws:iam::123456789012:role/b'',
                   ''arn:aws:iam::123456789012:role/a''],
         LambdaRoleArn = ''arn:aws:iam::123456789012:role/lambda'',
         DTRegion = JString ''us-east-1'',
         AthenaResultsBucket = JString ''my-bucket'',
         StackId_prop = JString ''stack-1''\<rparr>,
      StackId = JString ''arn:aws:cloudformation:us-west-2:123456789012:stack/s/guid'',
      RequestId = ''r1'', LogicalResourceId = ''l1'', PhysicalResourceId = None,
      ResponseURL = ''https://example.invalid/r''\<rparr>"

definition example_env :: process_env where
  "example_env = \<lparr>AWS_REGION = Some ''us-west-2''\<rparr>"

definition example_context :: lambda_context where
  "example_context = \<lparr>logGroupName = ''group'', logStreamName = ''stream''\<rparr>"

text \<open>The same event with a share ARN that is not a RAM ARN.\<close>

definition malformed_arn_event :: event where
  "malformed_arn_event =
     example_event\<lparr>ResourceProperties :=
       (ResourceProperties example_event)\<lparr>ResourceShareArn := JString ''arn:aws:s3:::bucket''\<rparr>\<rparr>"

text \<open>A provider that reports one invitation in the given state and fulfils every other command.\<close>

definition invitation_provider :: "ResourceShareInvitationStatus \<Rightarrow> provider" where
  "invitation_provider st h c cmd =
     (case cmd of
        GetResourceShareInvitationsCommand a \<Rightarrow>
          GetResourceShareInvitationsResponse
            [\<lparr>status = Some st, resourceShareInvitationArn = Some ''inv-1''\<rparr>]
      | _ \<Rightarrow> Fulfilled)"

text \<open>
  A provider that reports no invitation and lists the given resources for every listing.
\<close>

definition no_invitation_provider :: "Resource list \<Rightarrow> provider" where
  "no_invitation_provider rs h c cmd =
     (case cmd of
        GetResourceShareInvitationsCommand a \<Rightarrow> GetResourceShareInvitationsResponse []
      | ListResourcesCommand a t \<Rightarrow> ListResourcesResponse rs
      | _ \<Rightarrow> Fulfilled)"


text \<open>
  A provider that lists one shared database (and two tables of it), reports one existing
  administrator in the data lake settings, and fulfils every other command.
\<close>

definition catalog_provider :: provider where
  "catalog_provider h c cmd =
     (case cmd of
        ListResourcesCommand a t \<Rightarrow>
          (if t = Some ''glue:table''
           then ListResourcesResponse
                  [\<lparr>arn = Some ''arn:aws:glue:us-west-2:222222222222:table/shared_db/t1''\<rparr>,
                   \<lparr>arn = Some ''arn:aws:glue:us-west-2:222222222222:table/shared_db/t2''\<rparr>]
           else ListResourcesResponse
                  [\<lparr>arn = Some ''arn:aws:glue:us-west-2:222222222222:database/shared_db''\<rparr>])
      | GetDataLakeSettingsCommand \<Rightarrow>
          GetDataLakeSettingsResponse
            (Some \<lparr>DataLakeAdmins = Some [''arn:aws:iam::123456789012:role/admin''],
                   otherFields = [(''TrustedResourceOwners'', ''[]'')]\<rparr>)
      | _ \<Rightarrow> Fulfilled)"

text \<open>
  The provider met by a second run of the database handler: as \<open>p\<close>, except that the
  database now exists, so that every CreateDatabase is rejected with AlreadyExistsException.
\<close>

definition database_exists :: "string \<Rightarrow> provider \<Rightarrow> provider" where
  "database_exists msg p h c cmd =
     (case cmd of
        CreateDatabaseCommand n a \<Rightarrow> Rejected AlreadyExistsException msg
      | _ \<Rightarrow> p h c cmd)"


text \<open>The example event with an empty list of principals, and with a string in its place.\<close>

definition empty_principals_event :: event where
  "empty_principals_event =
     example_event\<lparr>ResourceProperties :=
       (ResourceProperties example_event)\<lparr>LakeFormationPrincipals := JArray []\<rparr>\<rparr>"

definition string_principals_event :: event where
  "string_principals_event =
     example_event\<lparr>ResourceProperties :=
       (ResourceProperties example_event)\<lparr>LakeFormationPrincipals :=
          JString ''arn:aws:iam::123456789012:role/a''\<rparr>\<rparr>"


text \<open>
  A provider where the Athena bucket parameter already exists and the stack id parameter
  holds the id of another stack; every other command is answered as by \<open>catalog_provider\<close>.
\<close>

definition collision_provider :: provider where
  "collision_provider h c cmd =
     (case cmd of
        PutParameterCommand prm v \<Rightarrow>
          (if Name prm = ''/Detective/SLI/S3Bucket''
           then Rejected ParameterAlreadyExists ''The parameter already exists.''
           else Fulfilled)
      | GetParameterCommand n \<Rightarrow> GetParameterResponse (Some ''other-stack'')
      | _ \<Rightarrow> catalog_provider h c cmd)"

text \<open>A Delete request for the example stack, and the same with a region that is not one.\<close>

definition delete_event :: event where
  "delete_event = example_event\<lparr>RequestType := ''Delete''\<rparr>"

definition bad_region_delete_event :: event where
  "bad_region_delete_event =
     delete_event\<lparr>ResourceProperties :=
       (ResourceProperties delete_event)\<lparr>DTRegion := JString ''nowhere''\<rparr>\<rparr>"


text \<open>A provider that rejects every permission grant and answers as \<open>catalog_provider\<close> otherwise.\<close>

definition grant_denied_provider :: provider where
  "grant_denied_provider h c cmd =
     (case cmd of
        GrantPermissionsCommand pr db \<Rightarrow>
          Rejected (OtherException ''AccessDeniedException'') ''Insufficient permissions.''
      | _ \<Rightarrow> catalog_provider h c cmd)"


section \<open>Basic facts about the steps\<close>

lemmas io_defs = io_return_def io_throw_def io_bind_def io_catch_def

lemma sent_world0: "sent world0 = []"
  by (simp add: world0_def)

lemma send_eq:
  "send p c cmd w =
     ((case p (sent w) c cmd of Rejected k msg \<Rightarrow> Inl (ServiceException k msg) | x \<Rightarrow> Inr x),
      w\<lparr>sent := sent w @ [(c, cmd, p (sent w) c cmd)]\<rparr>)"
  by (simp add: send_def Let_def split: response.splits)

lemma getResourceShareArn_run:
  "getResourceShareArn ev w =
     (if regex_test RESOURCE_SHARE_ARN_REGEX (ToString (ResourceShareArn (ResourceProperties ev)))
      then (Inr (ResourceShareArn (ResourceProperties ev)), w)
      else (Inl (JsError ''Invalid ResourceShareArn.''), w))"
  by (simp add: getResourceShareArn_def validateResourceShareArn_def io_defs)

lemma validateRegion_run:
  "validateRegion region w =
     (if regex_test regionRegex (ToString region) then (Inr (), w)
      else (Inl (JsError (''Invalid region: '' @ ToString region @ ''.'')), w))"
  by (simp add: validateRegion_def io_defs)

lemma getResourceShareRegion_world:
  "getResourceShareRegion a w = (r, w') \<Longrightarrow> w' = w"
  by (auto simp: getResourceShareRegion_def io_defs validateRegion_run Let_def
      split: option.splits if_splits)


section \<open>ShareAcceptor: the steps after validation\<close>

lemma handleInvitation_run:
  assumes "handleInvitation p c st ia w = (r, w')"
  shows "console_error w' = console_error w \<and>
         (if st = Some PENDING
          then sent w' = sent w @ [(c, AcceptResourceShareInvitationCommand ia,
                                    p (sent w) c (AcceptResourceShareInvitationCommand ia))]
               \<and> r = (case p (sent w) c (AcceptResourceShareInvitationCommand ia) of
                        Rejected k msg \<Rightarrow>
                          if k = ResourceShareInvitationAlreadyAcceptedException then Inr ()
                          else Inl (ServiceException k msg)
                      | _ \<Rightarrow> Inr ())
          else sent w' = sent w \<and>
               r = (if st = Some EXPIRED then Inl (JsError ''Invitation has expired.'')
                    else if st = Some REJECTED
                         then Inl (JsError ''Invitation has already been rejected.'')
                    else Inr ()))"
  using assms
  by (auto simp: handleInvitation_def acceptInvitation_def io_defs send_eq
      split: response.splits exception_class.splits if_splits)

lemma handleInvitation_extends:
  assumes "handleInvitation p c st ia w = (r, w')"
  shows "\<exists>rest. sent w' = sent w @ rest"
  using handleInvitation_run[OF assms] by (auto split: if_splits)

lemma getInvitation_first:
  assumes "getInvitation p c a w = (r, w')"
  shows "\<exists>rest. sent w' = sent w @ (c, GetResourceShareInvitationsCommand a,
            p (sent w) c (GetResourceShareInvitationsCommand a)) # rest"
  using assms
  by (auto simp: getInvitation_def resourceShareAlreadyAccepted_def resources_of_def io_defs send_eq
      split: response.splits if_splits)

lemma getInvitation_found:
  assumes "p (sent w) c (GetResourceShareInvitationsCommand a)
             = GetResourceShareInvitationsResponse (i # is)"
    and "truthy (resourceShareInvitationArn i)"
  shows "getInvitation p c a w =
           (Inr (status i, resourceShareInvitationArn i),
            w\<lparr>sent := sent w @ [(c, GetResourceShareInvitationsCommand a,
                                   GetResourceShareInvitationsResponse (i # is))]\<rparr>)"
  using assms by (simp add: getInvitation_def io_defs send_eq)

lemma getInvitation_notfound:
  assumes "p (sent w) c (GetResourceShareInvitationsCommand a)
             = GetResourceShareInvitationsResponse invs"
    and "\<not> (0 < length invs \<and> truthy (resourceShareInvitationArn (invs ! 0)))"
    and "w1 = w\<lparr>sent := sent w @ [(c, GetResourceShareInvitationsCommand a,
                                   GetResourceShareInvitationsResponse invs)]\<rparr>"
    and "r1 = p (sent w1) c (ListResourcesCommand a None)"
  shows "getInvitation p c a w =
           ((case r1 of
               ListResourcesResponse rs \<Rightarrow>
                 if rs = []
                 then Inl (JsError ''Invalid ResourceShareArn: ResourceShareInvitationArn not found.'')
                 else Inr (Some ACCEPTED, None)
             | Rejected k msg \<Rightarrow> Inl (ServiceException k msg)
             | _ \<Rightarrow> Inl (JsTypeError
                   ''Cannot read properties of undefined (reading 'length')'')),
            w1\<lparr>sent := sent w1 @ [(c, ListResourcesCommand a None, r1)]\<rparr>)"
proof (cases invs)
  case Nil
  then show ?thesis
    unfolding assms(3,4) getInvitation_def
    by (simp add: assms(1) resourceShareAlreadyAccepted_def resources_of_def io_defs send_eq
        split: response.splits)
next
  case (Cons i "is")
  with assms(2) have "\<not> truthy (resourceShareInvitationArn i)" by simp
  with Cons show ?thesis
    unfolding assms(3,4) getInvitation_def
    by (simp add: assms(1) resourceShareAlreadyAccepted_def resources_of_def io_defs send_eq
        split: response.splits)
qed

lemma acceptor_after_lookup:
  assumes "regex_test RESOURCE_SHARE_ARN_REGEX (ToString (ResourceShareArn (ResourceProperties ev)))"
    and "getResourceShareRegion (ResourceShareArn (ResourceProperties ev)) world0
           = (Inr region, world0)"
    and "getInvitation p (RAMClient region) (ResourceShareArn (ResourceProperties ev)) world0
           = (ri, wi)"
  shows "acceptor_startCreate p ev world0 =
           (case ri of
              Inl e \<Rightarrow> ((''FAILED'', Some e), wi)
            | Inr (st, ia) \<Rightarrow>
                (case handleInvitation p (RAMClient region) st ia wi of
                   (Inl e, w') \<Rightarrow> ((''FAILED'', Some e), w')
                 | (Inr _, w') \<Rightarrow> ((''SUCCESS'', None), w')))"
  using assms
  by (simp add: acceptor_startCreate_def io_bind_def getResourceShareArn_run
        constructRAMClient_def Let_def
      split: sum.splits prod.splits)

text \<open>
  If the acceptor sent anything, the share ARN and its region were valid and the first
  command was the invitation lookup.
\<close>

lemma acceptor_first:
  assumes run: "acceptor_startCreate p ev world0 = (res, w)"
    and ne: "sent w = x # rest"
  shows "\<exists>region. getResourceShareRegion (ResourceShareArn (ResourceProperties ev)) world0
                    = (Inr region, world0)
           \<and> regex_test RESOURCE_SHARE_ARN_REGEX
                (ToString (ResourceShareArn (ResourceProperties ev)))
           \<and> x = (RAMClient region,
                  GetResourceShareInvitationsCommand (ResourceShareArn (ResourceProperties ev)),
                  p [] (RAMClient region)
                    (GetResourceShareInvitationsCommand (ResourceShareArn (ResourceProperties ev))))"
proof -
  let ?a = "ResourceShareArn (ResourceProperties ev)"
  note s0 = sent_world0
  have valid: "regex_test RESOURCE_SHARE_ARN_REGEX (ToString ?a)"
    using run ne s0
    by (auto simp: acceptor_startCreate_def io_bind_def getResourceShareArn_run split: if_splits)
  obtain rr wr where reg: "getResourceShareRegion ?a world0 = (rr, wr)" by force
  then have wr: "wr = world0" by (rule getResourceShareRegion_world)
  show ?thesis
  proof (cases rr)
    case (Inl e)
    with valid reg wr run ne s0 show ?thesis
      by (simp add: acceptor_startCreate_def io_bind_def getResourceShareArn_run)
  next
    case (Inr region)
    obtain ri wi where gi: "getInvitation p (RAMClient region) ?a world0 = (ri, wi)" by force
    from getInvitation_first[OF gi] s0 obtain r1 where
      wi: "sent wi = (RAMClient region, GetResourceShareInvitationsCommand ?a,
             p [] (RAMClient region) (GetResourceShareInvitationsCommand ?a)) # r1" by auto
    have fin: "acceptor_startCreate p ev world0 =
           (case ri of
              Inl e \<Rightarrow> ((''FAILED'', Some e), wi)
            | Inr (st, ia) \<Rightarrow>
                (case handleInvitation p (RAMClient region) st ia wi of
                   (Inl e, w') \<Rightarrow> ((''FAILED'', Some e), w')
                 | (Inr _, w') \<Rightarrow> ((''SUCCESS'', None), w')))"
      using valid reg wr Inr gi by (intro acceptor_after_lookup) simp_all
    have "\<exists>r2. sent w = sent wi @ r2"
    proof (cases ri)
      case (Inl e)
      with fin run show ?thesis by simp
    next
      case si: (Inr si)
      obtain st ia where si2: "si = (st, ia)" by force
      obtain rh wh where h: "handleInvitation p (RAMClient region) st ia wi = (rh, wh)" by force
      with fin run si si2 have "wh = w" by (auto split: sum.splits)
      with h show ?thesis using handleInvitation_extends by blast
    qed
    with wi ne have "x = (RAMClient region, GetResourceShareInvitationsCommand ?a,
             p [] (RAMClient region) (GetResourceShareInvitationsCommand ?a))" by auto
    with valid reg wr Inr show ?thesis by simp
  qed
qed


section \<open>Malformed share ARNs\<close>

text \<open>
  Claim C5. When the share ARN of the event does not match the share-ARN pattern, the
  create path of each of the four handlers returns FAILED with the error
  \<open>Invalid ResourceShareArn.\<close> and has sent no command to any provider: the world after
  the run is the initial one.
\<close>

theorem C5_malformed_share_arn_fails_before_any_call:
  assumes "\<not> regex_test RESOURCE_SHARE_ARN_REGEX
               (ToString (ResourceShareArn (ResourceProperties ev)))"
  shows "acceptor_startCreate p ev world0
           = ((''FAILED'', Some (JsError ''Invalid ResourceShareArn.'')), world0)
       \<and> gluedb_startCreate p penv ev world0
           = ((''FAILED'', None, Some (JsError ''Invalid ResourceShareArn.'')), world0)
       \<and> gluetable_startCreate p penv ev world0
           = ((''FAILED'', Some (JsError ''Invalid ResourceShareArn.'')), world0)
       \<and> createParameters p ev world0
           = ((''FAILED'', Some (JsError ''Invalid ResourceShareArn.'')), world0)"
  using assms
  by (simp add: acceptor_startCreate_def gluedb_startCreate_def gluetable_startCreate_def
        createParameters_def io_bind_def getResourceShareArn_run)

theorem C5_malformed_share_arn_witness:
  "\<not> regex_test RESOURCE_SHARE_ARN_REGEX
       (ToString (ResourceShareArn (ResourceProperties malformed_arn_event)))
   \<and> acceptor_startCreate (invitation_provider PENDING) malformed_arn_event world0
       = ((''FAILED'', Some (JsError ''Invalid ResourceShareArn.'')), world0)
   \<and> gluedb_startCreate (invitation_provider PENDING) example_env malformed_arn_event world0
       = ((''FAILED'', None, Some (JsError ''Invalid ResourceShareArn.'')), world0)
   \<and> gluetable_startCreate (invitation_provider PENDING) example_env malformed_arn_event world0
       = ((''FAILED'', Some (JsError ''Invalid ResourceShareArn.'')), world0)
   \<and> createParameters (invitation_provider PENDING) malformed_arn_event world0
       = ((''FAILED'', Some (JsError ''Invalid ResourceShareArn.'')), world0)"
proof -
  have bad: "\<not> regex_test RESOURCE_SHARE_ARN_REGEX
       (ToString (ResourceShareArn (ResourceProperties malformed_arn_event)))"
    by code_simp
  from bad C5_malformed_share_arn_fails_before_any_call[OF bad] show ?thesis
    by (rule conjI)
qed


section \<open>ShareAcceptor: outcome by invitation state\<close>

text \<open>
  Claim C2. Take a create run of the acceptor whose invitation lookup returned a list
  whose first invitation carries a (non-empty) invitation ARN. Then the rest of the run
  is decided by the state of that invitation. PENDING: exactly one further command is
  sent, the accept of that invitation; the run succeeds when the accept is fulfilled or
  rejected as already accepted, and fails with the provider's exception otherwise.
  ACCEPTED: nothing further is sent and the run succeeds. EXPIRED and REJECTED: nothing
  further is sent and the run fails with the corresponding error. (A state the handler
  does not know falls through: nothing is sent, success.)
\<close>

theorem C2_invitation_state_decides_outcome:
  assumes run: "acceptor_startCreate p ev world0 = (res, w)"
    and lookup: "sent w = (c, GetResourceShareInvitationsCommand a,
                    GetResourceShareInvitationsResponse (invitation # invs)) # rest"
    and found: "truthy (resourceShareInvitationArn invitation)"
  shows "case status invitation of
           Some PENDING \<Rightarrow>
             (\<exists>r. rest = [(c, AcceptResourceShareInvitationCommand
                               (resourceShareInvitationArn invitation), r)]
                \<and> accepted_invitations (sent w) = [resourceShareInvitationArn invitation]
                \<and> res = (case r of
                           Rejected k msg \<Rightarrow>
                             if k = ResourceShareInvitationAlreadyAcceptedException
                             then (''SUCCESS'', None)
                             else (''FAILED'', Some (ServiceException k msg))
                         | _ \<Rightarrow> (''SUCCESS'', None)))
         | Some ACCEPTED \<Rightarrow> rest = [] \<and> res = (''SUCCESS'', None)
         | Some EXPIRED \<Rightarrow>
             rest = [] \<and> res = (''FAILED'', Some (JsError ''Invitation has expired.''))
         | Some REJECTED \<Rightarrow>
             rest = [] \<and>
             res = (''FAILED'', Some (JsError ''Invitation has already been rejected.''))
         | None \<Rightarrow> rest = [] \<and> res = (''SUCCESS'', None)"
proof -
  let ?a = "ResourceShareArn (ResourceProperties ev)"
  let ?st = "status invitation" and ?ia = "resourceShareInvitationArn invitation"
  note s0 = sent_world0
  from acceptor_first[OF run lookup] obtain region where
    reg: "getResourceShareRegion ?a world0 = (Inr region, world0)"
    and valid: "regex_test RESOURCE_SHARE_ARN_REGEX (ToString ?a)"
    and c: "c = RAMClient region" and a: "a = ?a"
    and r0: "p [] (RAMClient region) (GetResourceShareInvitationsCommand ?a)
               = GetResourceShareInvitationsResponse (invitation # invs)"
    by auto
  define w1 where "w1 = world0\<lparr>sent := [(c, GetResourceShareInvitationsCommand a,
                                   GetResourceShareInvitationsResponse (invitation # invs))]\<rparr>"
  have gi: "getInvitation p (RAMClient region) ?a world0 = (Inr (?st, ?ia), w1)"
    using getInvitation_found[of p world0 "RAMClient region" ?a invitation invs] r0 found s0
    by (simp add: w1_def c a)
  obtain rh wh where h: "handleInvitation p c ?st ?ia w1 = (rh, wh)"
    by (cases "handleInvitation p c ?st ?ia w1")
  from acceptor_after_lookup[OF valid reg gi] run h
  have w: "w = wh"
    and res: "res = (case rh of Inl e \<Rightarrow> (''FAILED'', Some e) | Inr _ \<Rightarrow> (''SUCCESS'', None))"
    by (auto simp: c split: sum.splits)
  have sw1: "sent w1 = [(c, GetResourceShareInvitationsCommand a,
                GetResourceShareInvitationsResponse (invitation # invs))]"
    by (simp add: w1_def)
  note H = handleInvitation_run[OF h, unfolded sw1]
  show ?thesis
  proof (cases "?st = Some PENDING")
    case True
    define r where "r = p (sent w1) c (AcceptResourceShareInvitationCommand ?ia)"
    from True H lookup w have rest: "rest = [(c, AcceptResourceShareInvitationCommand ?ia, r)]"
      by (simp add: r_def sw1)
    from True H res have "res = (case r of
                           Rejected k msg \<Rightarrow>
                             if k = ResourceShareInvitationAlreadyAcceptedException
                             then (''SUCCESS'', None)
                             else (''FAILED'', Some (ServiceException k msg))
                         | _ \<Rightarrow> (''SUCCESS'', None))"
      by (cases r) (simp_all add: r_def sw1)
    moreover have "accepted_invitations (sent w) = [?ia]"
      by (simp add: lookup rest)
    ultimately show ?thesis using True rest by simp
  next
    case False
    with H lookup w res show ?thesis
      by (auto split: option.splits ResourceShareInvitationStatus.splits)
  qed
qed

theorem C2_invitation_state_witness:
  "fst (acceptor_startCreate (invitation_provider PENDING) example_event world0)
     = (''SUCCESS'', None)
   \<and> accepted_invitations
       (sent (snd (acceptor_startCreate (invitation_provider PENDING) example_event world0)))
     = [Some ''inv-1'']
   \<and> fst (acceptor_startCreate (invitation_provider EXPIRED) example_event world0)
     = (''FAILED'', Some (JsError ''Invitation has expired.''))
   \<and> accepted_invitations
       (sent (snd (acceptor_startCreate (invitation_provider EXPIRED) example_event world0)))
     = []"
proof -
  let ?c = "RAMClient (JString ''us-west-2'')"
  let ?a = "JString ''arn:aws:ram:us-west-2:111111111111:resource-share/abc''"
  let ?run1 = "acceptor_startCreate (invitation_provider PENDING) example_event world0"
  let ?run2 = "acceptor_startCreate (invitation_provider EXPIRED) example_event world0"
  have run1: "?run1 = (fst ?run1, snd ?run1)"
    by simp
  have lookup1: "sent (snd ?run1)
          = (?c, GetResourceShareInvitationsCommand ?a,
             GetResourceShareInvitationsResponse
               [\<lparr>status = Some PENDING, resourceShareInvitationArn = Some ''inv-1''\<rparr>])
            # [(?c, AcceptResourceShareInvitationCommand (Some ''inv-1''), Fulfilled)]"
    by code_simp
  have found1: "truthy (resourceShareInvitationArn
      \<lparr>status = Some PENDING, resourceShareInvitationArn = Some ''inv-1''\<rparr>)"
    by simp
  have run2: "?run2 = (fst ?run2, snd ?run2)"
    by simp
  have lookup2: "sent (snd ?run2)
          = (?c, GetResourceShareInvitationsCommand ?a,
             GetResourceShareInvitationsResponse
               [\<lparr>status = Some EXPIRED, resourceShareInvitationArn = Some ''inv-1''\<rparr>])
            # []"
    by code_simp
  have found2: "truthy (resourceShareInvitationArn
      \<lparr>status = Some EXPIRED, resourceShareInvitationArn = Some ''inv-1''\<rparr>)"
    by simp
  from C2_invitation_state_decides_outcome[OF run1 lookup1 found1]
  have "fst ?run1 = (''SUCCESS'', None)
        \<and> accepted_invitations (sent (snd ?run1)) = [Some ''inv-1'']"
    by auto
  moreover from C2_invitation_state_decides_outcome[OF run2 lookup2 found2]
  have "fst ?run2 = (''FAILED'', Some (JsError ''Invitation has expired.''))"
    by simp
  moreover have "accepted_invitations (sent (snd ?run2)) = []"
    by (simp add: lookup2)
  ultimately show ?thesis
    by (intro conjI) (erule conjunct1, erule conjunct2, assumption+)
qed


section \<open>ShareAcceptor: no invitation found\<close>

text \<open>
  Claim C3. Take a create run of the acceptor whose invitation lookup returned no
  invitation (an empty list, or a first entry without invitation ARN). Then exactly one
  further command is sent, the listing of the share's resources, and no accept is
  issued. If the listing is non-empty the run succeeds; if it is empty the run fails
  with the error \<open>Invalid ResourceShareArn: ResourceShareInvitationArn not found.\<close>; if
  the listing itself is rejected the run fails with the provider's exception.
\<close>

theorem C3_no_invitation_checks_resource_listing:
  assumes run: "acceptor_startCreate p ev world0 = (res, w)"
    and lookup: "sent w = (c, GetResourceShareInvitationsCommand a,
                    GetResourceShareInvitationsResponse invs) # rest"
    and notfound: "\<not> (0 < length invs \<and> truthy (resourceShareInvitationArn (invs ! 0)))"
  shows "\<exists>r. rest = [(c, ListResourcesCommand a None, r)] \<and>
           accepted_invitations (sent w) = [] \<and>
           res = (case r of
                    ListResourcesResponse rs \<Rightarrow>
                      if rs = []
                      then (''FAILED'', Some (JsError
                              ''Invalid ResourceShareArn: ResourceShareInvitationArn not found.''))
                      else (''SUCCESS'', None)
                  | Rejected k msg \<Rightarrow> (''FAILED'', Some (ServiceException k msg))
                  | _ \<Rightarrow> (''FAILED'', Some (JsTypeError
                        ''Cannot read properties of undefined (reading 'length')'')))"
proof -
  let ?a = "ResourceShareArn (ResourceProperties ev)"
  note s0 = sent_world0
  from acceptor_first[OF run lookup] obtain region where
    reg: "getResourceShareRegion ?a world0 = (Inr region, world0)"
    and valid: "regex_test RESOURCE_SHARE_ARN_REGEX (ToString ?a)"
    and c: "c = RAMClient region" and a: "a = ?a"
    and r0: "p [] (RAMClient region) (GetResourceShareInvitationsCommand ?a)
               = GetResourceShareInvitationsResponse invs"
    by auto
  define w1 where "w1 = world0\<lparr>sent := sent world0 @
      [(RAMClient region, GetResourceShareInvitationsCommand ?a,
        GetResourceShareInvitationsResponse invs)]\<rparr>"
  define r1 where "r1 = p (sent w1) (RAMClient region) (ListResourcesCommand ?a None)"
  note G = getInvitation_notfound[of p world0 "RAMClient region" ?a invs w1 r1,
              unfolded s0, OF r0 notfound w1_def[unfolded s0] r1_def]
  have sw1: "sent w1 = [(c, GetResourceShareInvitationsCommand a,
                GetResourceShareInvitationsResponse invs)]"
    by (simp add: w1_def c a s0)
  have fin: "acceptor_startCreate p ev world0 =
      ((case r1 of
          ListResourcesResponse rs \<Rightarrow>
            if rs = []
            then (''FAILED'', Some (JsError
                    ''Invalid ResourceShareArn: ResourceShareInvitationArn not found.''))
            else (''SUCCESS'', None)
        | Rejected k msg \<Rightarrow> (''FAILED'', Some (ServiceException k msg))
        | _ \<Rightarrow> (''FAILED'', Some (JsTypeError
              ''Cannot read properties of undefined (reading 'length')''))),
       w1\<lparr>sent := sent w1 @ [(c, ListResourcesCommand a None, r1)]\<rparr>)"
    unfolding acceptor_after_lookup[OF valid reg G]
    by (cases r1) (simp_all add: handleInvitation_def io_defs c a)
  from fin run sw1 lookup have rest: "rest = [(c, ListResourcesCommand a None, r1)]" by auto
  from rest lookup have "accepted_invitations (sent w) = []" by simp
  moreover from fin run have "res = (case r1 of
          ListResourcesResponse rs \<Rightarrow>
            if rs = []
            then (''FAILED'', Some (JsError
                    ''Invalid ResourceShareArn: ResourceShareInvitationArn not found.''))
            else (''SUCCESS'', None)
        | Rejected k msg \<Rightarrow> (''FAILED'', Some (ServiceException k msg))
        | _ \<Rightarrow> (''FAILED'', Some (JsTypeError
              ''Cannot read properties of undefined (reading 'length')'')))" by simp
  ultimately show ?thesis using rest by blast
qed

theorem C3_no_invitation_witness:
  "fst (acceptor_startCreate (no_invitation_provider [\<lparr>arn = Some ''x''\<rparr>]) example_event world0)
     = (''SUCCESS'', None)
   \<and> fst (acceptor_startCreate (no_invitation_provider []) example_event world0)
     = (''FAILED'', Some (JsError
          ''Invalid ResourceShareArn: ResourceShareInvitationArn not found.''))"
proof -
  let ?c = "RAMClient (JString ''us-west-2'')"
  let ?a = "JString ''arn:aws:ram:us-west-2:111111111111:resource-share/abc''"
  let ?run1 = "acceptor_startCreate (no_invitation_provider [\<lparr>arn = Some ''x''\<rparr>])
                 example_event world0"
  let ?run2 = "acceptor_startCreate (no_invitation_provider []) example_event world0"
  have nf: "\<not> (0 < length ([] :: ResourceShareInvitation list)
               \<and> truthy (resourceShareInvitationArn ([] ! 0)))"
    by simp
  have run1: "?run1 = (fst ?run1, snd ?run1)"
    by simp
  have lookup1: "sent (snd ?run1) =
      (?c, GetResourceShareInvitationsCommand ?a, GetResourceShareInvitationsResponse [])
      # [(?c, ListResourcesCommand ?a None, ListResourcesResponse [\<lparr>arn = Some ''x''\<rparr>])]"
    by code_simp
  have run2: "?run2 = (fst ?run2, snd ?run2)"
    by simp
  have lookup2: "sent (snd ?run2) =
      (?c, GetResourceShareInvitationsCommand ?a, GetResourceShareInvitationsResponse [])
      # [(?c, ListResourcesCommand ?a None, ListResourcesResponse [])]"
    by code_simp
  from C3_no_invitation_checks_resource_listing[OF run1 lookup1 nf]
  have "fst ?run1 = (''SUCCESS'', None)"
    by auto
  moreover from C3_no_invitation_checks_resource_listing[OF run2 lookup2 nf]
  have "fst ?run2 = (''FAILED'', Some (JsError
          ''Invalid ResourceShareArn: ResourceShareInvitationArn not found.''))"
    by auto
  ultimately show ?thesis
    by (rule conjI)
qed


section \<open>CatalogDatabaseProvisioner: creating twice\<close>

lemma getDatabaseArnParts_pure:
  "getDatabaseArnParts x w = (fst (getDatabaseArnParts x world0), w)"
  by (simp add: getDatabaseArnParts_def io_defs Let_def split: option.splits)

lemma createGlueDatabase_run:
  "createGlueDatabase p c acct name w =
     ((case p (sent w) c (CreateDatabaseCommand name acct) of
         Rejected k msg \<Rightarrow>
           if k = AlreadyExistsException then Inr () else Inl (ServiceException k msg)
       | _ \<Rightarrow> Inr ()),
      w\<lparr>sent := sent w @ [(c, CreateDatabaseCommand name acct,
                             p (sent w) c (CreateDatabaseCommand name acct))]\<rparr>)"
  by (simp add: createGlueDatabase_def io_defs send_eq
      split: response.splits exception_class.splits)

lemma getSharedGlueDatabaseArn_run:
  "getSharedGlueDatabaseArn p c a w =
     ((case p (sent w) c (ListResourcesCommand a (Some ''glue:database'')) of
         Rejected k msg \<Rightarrow> Inl (ServiceException k msg)
       | ListResourcesResponse rs \<Rightarrow>
           if rs = [] then Inl (JsError ''Found no resources associated with resource share ARN.'')
           else Inr (arn (rs ! 0))
       | _ \<Rightarrow> Inl (JsTypeError
             ''Cannot read properties of undefined (reading 'length')'')),
      w\<lparr>sent := sent w @ [(c, ListResourcesCommand a (Some ''glue:database''),
                             p (sent w) c (ListResourcesCommand a (Some ''glue:database'')))]\<rparr>)"
  by (simp add: getSharedGlueDatabaseArn_def resources_of_def io_defs send_eq
      split: response.splits)

text \<open>The create path of the database handler, step by step.\<close>

lemma gluedb_startCreate_run:
  assumes a: "a = ResourceShareArn (ResourceProperties ev)"
    and region: "region = of_opt (AWS_REGION penv)"
  shows "gluedb_startCreate p penv ev world0 =
     (if \<not> regex_test RESOURCE_SHARE_ARN_REGEX (ToString a)
      then ((''FAILED'', None, Some (JsError ''Invalid ResourceShareArn.'')), world0)
      else (case getSharedGlueDatabaseArn p (RAMClient region) a world0 of
              (Inl e, w1) \<Rightarrow> ((''FAILED'', None, Some e), w1)
            | (Inr dbArn, w1) \<Rightarrow>
                (case fst (getDatabaseArnParts dbArn world0) of
                   Inl e \<Rightarrow> ((''FAILED'', None, Some e), w1)
                 | Inr (acct, name) \<Rightarrow>
                     (case createGlueDatabase p (GlueClient region) acct name w1 of
                        (Inl e, w2) \<Rightarrow> ((''FAILED'', None, Some e), w2)
                      | (Inr _, w2) \<Rightarrow> ((''SUCCESS'', name, None), w2)))))"
proof (cases "regex_test RESOURCE_SHARE_ARN_REGEX (ToString a)")
  case False
  then show ?thesis
    by (simp add: a gluedb_startCreate_def Let_def io_bind_def getResourceShareArn_run)
next
  case valid: True
  obtain r1 w1 where g: "getSharedGlueDatabaseArn p (RAMClient region) a world0 = (r1, w1)"
    by force
  show ?thesis
  proof (cases r1)
    case (Inl e)
    with valid g show ?thesis
      by (simp add: a region gluedb_startCreate_def Let_def io_bind_def getResourceShareArn_run)
  next
    case (Inr dbArn)
    note parts = getDatabaseArnParts_pure[of dbArn w1]
    show ?thesis
    proof (cases "fst (getDatabaseArnParts dbArn world0)")
      case (Inl e)
      with valid g Inr parts show ?thesis
        by (simp add: a region gluedb_startCreate_def Let_def io_bind_def getResourceShareArn_run)
    next
      case pr: (Inr pr)
      obtain acct name where pr2: "pr = (acct, name)" by force
      obtain r2 w2 where cr: "createGlueDatabase p (GlueClient region) acct name w1 = (r2, w2)"
        by force
      from valid g Inr parts pr pr2 cr show ?thesis
        by (cases r2)
           (simp_all add: a region gluedb_startCreate_def Let_def io_defs getResourceShareArn_run)
    qed
  qed
qed


lemma split_nosep: "sep \<notin> set xs \<Longrightarrow> split sep xs = [xs]"
  by (induction xs) auto

lemma split_app: "sep \<notin> set xs \<Longrightarrow> split sep (xs @ sep # ys) = xs # split sep ys"
  by (induction xs) auto

lemma getDatabaseArnParts_shape:
  assumes res: "fst (getDatabaseArnParts (Some s) w) = Inr (acct, name)"
    and s: "s = ''arn:'' @ pt @ '':glue:'' @ rg @ '':'' @ ac @ '':database/'' @ nm"
    and pt: "CHR '':'' \<notin> set pt" and rg: "CHR '':'' \<notin> set rg"
    and ac: "CHR '':'' \<notin> set ac" and nm: "CHR '':'' \<notin> set nm" "CHR ''/'' \<notin> set nm"
  shows "acct = Some ac \<and> name = Some nm"
proof -
  have sp: "split CHR '':'' s = [''arn'', pt, ''glue'', rg, ac, ''database/'' @ nm]"
    using pt rg ac nm by (simp add: s split_app split_nosep)
  from res nm show ?thesis
    by (simp add: getDatabaseArnParts_def sp split_nosep nth_opt_def io_defs Let_def
        split: if_splits)
qed

text \<open>
  Claim C4. Let a create invocation of the database handler report SUCCESS. Invoked
  again with the same event, context and environment, against a provider that differs
  only in rejecting CreateDatabase with AlreadyExistsException (the database exists by
  now), the handler reports the very same response body, hence SUCCESS and the same
  PhysicalResourceId; it sends the same commands, and the response to the last one is
  the already-exists rejection, which is swallowed. The identifier is derived from the
  listed database ARN: for an ARN \<open>arn:PARTITION:glue:REGION:ACCOUNT:database/NAME\<close> it
  is \<open>NAME\<close>.
\<close>

theorem C4_create_twice_same_identifier:
  assumes create: "RequestType ev = ''Create''"
    and first: "gluedb_handler p penv ev ctx = (body1, w1)"
    and ok: "body_Status body1 = ''SUCCESS''"
  shows "fst (gluedb_handler (database_exists msg p) penv ev ctx) = body1
       \<and> map (\<lambda>i. (fst i, fst (snd i)))
             (sent (snd (gluedb_handler (database_exists msg p) penv ev ctx)))
           = map (\<lambda>i. (fst i, fst (snd i))) (sent w1)
       \<and> snd (snd (last (sent (snd (gluedb_handler (database_exists msg p) penv ev ctx)))))
           = Rejected AlreadyExistsException msg
       \<and> (\<forall>c0 cmd0 rs rest pt rg ac nm.
              sent w1 = (c0, cmd0, ListResourcesResponse rs) # rest
              \<and> arn (rs ! 0) = Some (''arn:'' @ pt @ '':glue:'' @ rg @ '':'' @ ac
                                       @ '':database/'' @ nm)
              \<and> CHR '':'' \<notin> set pt \<and> CHR '':'' \<notin> set rg \<and> CHR '':'' \<notin> set ac
              \<and> CHR '':'' \<notin> set nm \<and> CHR ''/'' \<notin> set nm
              \<longrightarrow> body_PhysicalResourceId body1 = nm)"
proof -
  let ?a = "ResourceShareArn (ResourceProperties ev)"
  let ?region = "of_opt (AWS_REGION penv)"
  let ?p' = "database_exists msg p"
  note R = gluedb_startCreate_run[OF refl refl]
  have valid: "regex_test RESOURCE_SHARE_ARN_REGEX (ToString ?a)"
    using first ok create
    by (auto simp: gluedb_handler_def R sendResponse_def split: if_splits)
  obtain r1 wa where g: "getSharedGlueDatabaseArn p (RAMClient ?region) ?a world0 = (r1, wa)"
    by force
  have g': "getSharedGlueDatabaseArn ?p' (RAMClient ?region) ?a world0 = (r1, wa)"
    using g by (simp add: getSharedGlueDatabaseArn_run database_exists_def)
  from first ok create valid g obtain dbArn where r1: "r1 = Inr dbArn"
    by (cases r1) (auto simp: gluedb_handler_def R sendResponse_def)
  from first ok create valid g r1 obtain acct name
    where parts: "fst (getDatabaseArnParts dbArn world0) = Inr (acct, name)"
    by (cases "fst (getDatabaseArnParts dbArn world0)")
       (auto simp: gluedb_handler_def R sendResponse_def)
  let ?cmd = "CreateDatabaseCommand name acct"
  let ?r = "p (sent wa) (GlueClient ?region) ?cmd"
  have fst_run: "gluedb_startCreate p penv ev world0 =
      ((case createGlueDatabase p (GlueClient ?region) acct name wa of
          (Inl e, w2) \<Rightarrow> ((''FAILED'', None, Some e), w2)
        | (Inr _, w2) \<Rightarrow> ((''SUCCESS'', name, None), w2)))"
    by (simp add: R valid g r1 parts)
  have snd_run: "gluedb_startCreate ?p' penv ev world0 =
      ((''SUCCESS'', name, None),
       wa\<lparr>sent := sent wa @ [(GlueClient ?region, ?cmd, Rejected AlreadyExistsException msg)]\<rparr>)"
    by (simp add: R valid g' r1 parts createGlueDatabase_run database_exists_def)
  from first ok create fst_run
  have b1: "body1 = sendResponse penv ev ctx ''SUCCESS'' name None"
    and w1: "w1 = wa\<lparr>sent := sent wa @ [(GlueClient ?region, ?cmd, ?r)]\<rparr>"
    by (auto simp: gluedb_handler_def createGlueDatabase_run sendResponse_def exception_reason_def
        split: response.splits if_splits)
  let ?w2 = "wa\<lparr>sent := sent wa
               @ [(GlueClient ?region, ?cmd, Rejected AlreadyExistsException msg)]\<rparr>"
  have A: "gluedb_handler ?p' penv ev ctx = (body1, ?w2)"
    using create by (simp add: gluedb_handler_def snd_run b1 exception_reason_def)
  have B: "map (\<lambda>i. (fst i, fst (snd i))) (sent ?w2) = map (\<lambda>i. (fst i, fst (snd i))) (sent w1)"
    by (simp add: w1)
  have C: "snd (snd (last (sent ?w2))) = Rejected AlreadyExistsException msg"
    by simp
  have D: "\<forall>c0 cmd0 rs rest pt rg ac nm.
                sent w1 = (c0, cmd0, ListResourcesResponse rs) # rest
                \<and> arn (rs ! 0) = Some (''arn:'' @ pt @ '':glue:'' @ rg @ '':'' @ ac
                                         @ '':database/'' @ nm)
                \<and> CHR '':'' \<notin> set pt \<and> CHR '':'' \<notin> set rg \<and> CHR '':'' \<notin> set ac
                \<and> CHR '':'' \<notin> set nm \<and> CHR ''/'' \<notin> set nm
                \<longrightarrow> body_PhysicalResourceId body1 = nm"
  proof (intro allI impI, elim conjE)
    fix c0 cmd0 rs rest pt rg ac nm
    assume tr: "sent w1 = (c0, cmd0, ListResourcesResponse rs) # rest"
      and ar: "arn (rs ! 0) = Some (''arn:'' @ pt @ '':glue:'' @ rg @ '':'' @ ac
                                         @ '':database/'' @ nm)"
      and ns: "CHR '':'' \<notin> set pt" "CHR '':'' \<notin> set rg" "CHR '':'' \<notin> set ac"
              "CHR '':'' \<notin> set nm" "CHR ''/'' \<notin> set nm"
    let ?lc = "ListResourcesCommand ?a (Some ''glue:database'')"
    from g have wa: "sent wa = [(RAMClient ?region, ?lc, p [] (RAMClient ?region) ?lc)]"
      and r1eq: "r1 = (case p [] (RAMClient ?region) ?lc of
         Rejected k msg \<Rightarrow> Inl (ServiceException k msg)
       | ListResourcesResponse rs \<Rightarrow>
           if rs = [] then Inl (JsError ''Found no resources associated with resource share ARN.'')
           else Inr (arn (rs ! 0))
       | _ \<Rightarrow> Inl (JsTypeError
             ''Cannot read properties of undefined (reading 'length')''))"
      by (auto simp: getSharedGlueDatabaseArn_run sent_world0)
    from tr w1 wa have "p [] (RAMClient ?region) ?lc = ListResourcesResponse rs"
      by auto
    with r1eq r1 have "dbArn = arn (rs ! 0)"
      by (simp split: if_splits)
    with ar parts have "fst (getDatabaseArnParts (Some (''arn:'' @ pt @ '':glue:'' @ rg @ '':'' @ ac
                                         @ '':database/'' @ nm)) world0) = Inr (acct, name)"
      by simp
    from getDatabaseArnParts_shape[OF this refl ns]
    show "body_PhysicalResourceId body1 = nm"
      by (simp add: b1 sendResponse_def)
  qed
  from B C D show ?thesis
    unfolding A by simp
qed

theorem C4_create_twice_witness:
  "body_Status (fst (gluedb_handler catalog_provider example_env example_event example_context))
     = ''SUCCESS''
   \<and> body_PhysicalResourceId
        (fst (gluedb_handler catalog_provider example_env example_event example_context))
     = ''shared_db''
   \<and> fst (gluedb_handler (database_exists ''Database already exists.'' catalog_provider)
            example_env example_event example_context)
     = fst (gluedb_handler catalog_provider example_env example_event example_context)"
proof -
  let ?run = "gluedb_handler catalog_provider example_env example_event example_context"
  have create: "RequestType example_event = ''Create''"
    by code_simp
  have first: "?run = (fst ?run, snd ?run)"
    by simp
  have ok: "body_Status (fst ?run) = ''SUCCESS''"
    by code_simp
  have tr: "sent (snd ?run) =
      (RAMClient (JString ''us-west-2''),
       ListResourcesCommand (JString ''arn:aws:ram:us-west-2:111111111111:resource-share/abc'')
         (Some ''glue:database''),
       ListResourcesResponse
         [\<lparr>arn = Some ''arn:aws:glue:us-west-2:222222222222:database/shared_db''\<rparr>])
      # [(GlueClient (JString ''us-west-2''),
          CreateDatabaseCommand (Some ''shared_db'') (Some ''222222222222''), Fulfilled)]"
    by code_simp
  note T = C4_create_twice_same_identifier[OF create first ok, of "''Database already exists.''"]
  have "body_PhysicalResourceId (fst ?run) = ''shared_db''"
    using T[THEN conjunct2, THEN conjunct2, THEN conjunct2, rule_format,
        of "RAMClient (JString ''us-west-2'')"
           "ListResourcesCommand
              (JString ''arn:aws:ram:us-west-2:111111111111:resource-share/abc'')
              (Some ''glue:database'')"
           "[\<lparr>arn = Some ''arn:aws:glue:us-west-2:222222222222:database/shared_db''\<rparr>]"
           "[(GlueClient (JString ''us-west-2''),
              CreateDatabaseCommand (Some ''shared_db'') (Some ''222222222222''), Fulfilled)]"
           "''aws''" "''us-west-2''" "''222222222222''" "''shared_db''"]
      tr
    by simp
  with ok T[THEN conjunct1] show ?thesis
    by simp
qed



section \<open>TablePermissionGranter: the shape of a run\<close>

lemma set_insert_all_set: "set (set_insert_all acc xs) = set acc \<union> set xs"
  by (induction xs arbitrary: acc) auto

lemma set_insert_all_distinct: "distinct acc \<Longrightarrow> distinct (set_insert_all acc xs)"
  by (induction xs arbitrary: acc) auto

lemma set_new_Set: "set (new_Set xs) = set xs"
  by (simp add: new_Set_def set_insert_all_set)

lemma distinct_new_Set: "distinct (new_Set xs)"
  by (simp add: new_Set_def set_insert_all_distinct)

lemma length_new_Set: "length (new_Set xs) = card (set xs)"
  using distinct_card[OF distinct_new_Set, of xs] by (simp add: set_new_Set)

lemma granted_append: "granted (xs @ ys) = granted xs @ granted ys"
  by (induction xs rule: granted.induct) simp_all

lemma settings_written_append:
  "settings_written (xs @ ys) = settings_written xs @ settings_written ys"
  by (induction xs rule: settings_written.induct) simp_all

lemma settings_read_append: "settings_read (xs @ ys) = settings_read xs @ settings_read ys"
  by (induction xs rule: settings_read.induct) simp_all

lemma validateEach_pure: "validateEach xs acc w = (r, w') \<Longrightarrow> w' = w"
  by (induction xs) (auto simp: io_defs validateIAMPrincipal_def split: if_splits)

lemma getLakeFormationDataLakePrincipals_run:
  assumes "getLakeFormationDataLakePrincipals ev w = (r, w')"
  shows "w' = w \<and>
         (case r of
            Inr ps \<Rightarrow> Array_isArray (LakeFormationPrincipals (ResourceProperties ev))
                      \<and> ps = new_Set (elements (LakeFormationPrincipals (ResourceProperties ev)))
          | Inl e \<Rightarrow> Array_isArray (LakeFormationPrincipals (ResourceProperties ev))
                     \<or> e = JsError ''Could not parse account id from stack ID.''
                     \<or> e = JsError ''LakeFormationPrincipals is not an array.'')"
proof -
  let ?ps = "LakeFormationPrincipals (ResourceProperties ev)"
  obtain ra wa where a: "getAccountId (StackId ev) w = (ra, wa)" by force
  then have wa: "wa = w"
    by (auto simp: getAccountId_def io_defs split: option.splits if_splits)
  show ?thesis
  proof (cases ra)
    case (Inl e)
    with a wa assms show ?thesis
      by (auto simp: getLakeFormationDataLakePrincipals_def Let_def io_bind_def
            getAccountId_def io_throw_def io_return_def split: option.splits if_splits)
  next
    case (Inr acc)
    show ?thesis
    proof (cases "Array_isArray ?ps")
      case False
      with a wa Inr assms show ?thesis
        by (auto simp: getLakeFormationDataLakePrincipals_def Let_def io_defs validatePrincipals_def)
    next
      case True
      obtain rv wv where v: "validateEach (elements ?ps) acc w = (rv, wv)" by force
      then have "wv = w" by (rule validateEach_pure)
      with a wa Inr True v assms show ?thesis
        by (cases rv)
           (auto simp: getLakeFormationDataLakePrincipals_def Let_def io_defs validatePrincipals_def)
    qed
  qed
qed

lemma getDatabaseName_run:
  assumes "getDatabaseName p c a w = (r, w')"
  shows "\<exists>x. w' = w\<lparr>sent := sent w @ [(c, ListResourcesCommand a (Some ''glue:database''), x)]\<rparr>"
  using assms
  by (auto simp: getDatabaseName_def getDatabaseNameArn_def resources_of_def io_defs send_eq
      split: response.splits if_splits option.splits)

lemma getLakeFormationDataLakeSettings_run:
  "getLakeFormationDataLakeSettings p c w =
     ((case p (sent w) c GetDataLakeSettingsCommand of
         Rejected k msg \<Rightarrow> Inl (ServiceException k msg)
       | GetDataLakeSettingsResponse s \<Rightarrow> Inr s
       | _ \<Rightarrow> Inr None),
      w\<lparr>sent := sent w @ [(c, GetDataLakeSettingsCommand, p (sent w) c GetDataLakeSettingsCommand)]\<rparr>)"
  by (simp add: getLakeFormationDataLakeSettings_def io_defs send_eq split: response.splits)

lemma buildDataLakeSettings_run:
  "buildDataLakeSettings e ps w =
     ((case e of
         None \<Rightarrow> Inl (JsTypeError
               ''Cannot read properties of undefined (reading 'DataLakeAdmins')'')
       | Some s \<Rightarrow>
           (case DataLakeAdmins s of
              None \<Rightarrow> Inl (JsTypeError
                    ''Cannot read properties of undefined (reading 'map')'')
            | Some xs \<Rightarrow> Inr (s\<lparr>DataLakeAdmins := Some (new_Set (xs @ ps))\<rparr>))), w)"
  by (simp add: buildDataLakeSettings_def buildDataLakeAdmins_def io_defs split: option.splits)

lemma setLakeFormationDataLakeSettings_run:
  "setLakeFormationDataLakeSettings p c s w =
     ((case p (sent w) c (PutDataLakeSettingsCommand s) of
         Rejected k msg \<Rightarrow> Inl (ServiceException k msg)
       | _ \<Rightarrow> Inr ()),
      w\<lparr>sent := sent w @ [(c, PutDataLakeSettingsCommand s,
                             p (sent w) c (PutDataLakeSettingsCommand s))]\<rparr>)"
  by (simp add: setLakeFormationDataLakeSettings_def io_defs send_eq split: response.splits)

lemma grantLakeFormationPermission_run:
  assumes "grantLakeFormationPermission p c db ps w = (r, w')"
  shows "console_error w' = console_error w
       \<and> settings_written (sent w') = settings_written (sent w)
       \<and> settings_read (sent w') = settings_read (sent w)
       \<and> (\<exists>k. k \<le> length ps \<and> granted (sent w') = granted (sent w) @ take k ps
              \<and> (case r of Inr _ \<Rightarrow> k = length ps | Inl _ \<Rightarrow> True))"
  using assms
proof (induction ps arbitrary: w)
  case Nil
  then show ?case by (auto simp: io_defs)
next
  case (Cons x xs)
  let ?r = "p (sent w) c (GrantPermissionsCommand x db)"
  let ?w1 = "w\<lparr>sent := sent w @ [(c, GrantPermissionsCommand x db, ?r)]\<rparr>"
  show ?case
  proof (cases "\<exists>k m. ?r = Rejected k m")
    case True
    with Cons.prems have "w' = ?w1" and "\<exists>e. r = Inl e"
      by (auto simp: io_defs send_eq)
    then show ?thesis
      by (auto simp: granted_append settings_written_append settings_read_append
            intro!: exI[of _ "Suc 0"])
  next
    case False
    with Cons.prems have rec: "grantLakeFormationPermission p c db xs ?w1 = (r, w')"
      by (cases ?r) (auto simp: io_defs send_eq)
    from Cons.IH[OF rec] obtain k where k: "k \<le> length xs"
      "granted (sent w') = granted (sent ?w1) @ take k xs"
      "(case r of Inr _ \<Rightarrow> k = length xs | Inl _ \<Rightarrow> True)"
      and rest: "console_error w' = console_error w"
         "settings_written (sent w') = settings_written (sent ?w1)"
         "settings_read (sent w') = settings_read (sent ?w1)"
      by auto
    from k rest show ?thesis
      by (auto simp: granted_append settings_written_append settings_read_append
            intro!: exI[of _ "Suc k"] split: sum.splits)
  qed
qed


text \<open>
  Every create run of the table handler either writes no settings and grants nothing
  (and fails), or has read the settings \<open>s0\<close> with administrators \<open>a0\<close> once, has written
  the temporary settings (administrators, targets and the executing role), has granted
  to a prefix of the distinct targets, and, when all grants were fulfilled, has written
  the final settings (administrators and targets).
\<close>

lemma gluetable_trace:
  assumes run: "gluetable_startCreate p penv ev world0 = (res, w)"
    and ps: "ps = new_Set (elements (LakeFormationPrincipals (ResourceProperties ev)))"
    and role: "role = LambdaRoleArn (ResourceProperties ev)"
  shows "(settings_written (sent w) = [] \<and> granted (sent w) = [] \<and> fst res = ''FAILED'')
       \<or> (\<exists>s0 a0 k.
             Array_isArray (LakeFormationPrincipals (ResourceProperties ev))
           \<and> settings_read (sent w) = [s0] \<and> DataLakeAdmins s0 = Some a0
           \<and> k \<le> length ps \<and> granted (sent w) = take k ps
           \<and> (settings_written (sent w)
                 = [s0\<lparr>DataLakeAdmins := Some (new_Set (new_Set (a0 @ ps) @ [role]))\<rparr>]
                \<and> fst res = ''FAILED''
              \<or> settings_written (sent w)
                 = [s0\<lparr>DataLakeAdmins := Some (new_Set (new_Set (a0 @ ps) @ [role]))\<rparr>,
                    s0\<lparr>DataLakeAdmins := Some (new_Set (a0 @ ps))\<rparr>]
                \<and> k = length ps
                \<and> (res = (''SUCCESS'', None) \<or> fst res = ''FAILED'')))"
proof -
  let ?a = "ResourceShareArn (ResourceProperties ev)"
  let ?P = "LakeFormationPrincipals (ResourceProperties ev)"
  let ?ram = "RAMClient (of_opt (AWS_REGION penv))"
  let ?lf = "LakeFormationClient (of_opt (AWS_REGION penv))"
  note D = gluetable_startCreate_def Let_def io_bind_def getResourceShareArn_run
    buildClients_def getCurrentCallerIdentityArn_def
  note s0 = sent_world0
  show ?thesis
  proof (cases "regex_test RESOURCE_SHARE_ARN_REGEX (ToString ?a)")
    case False
    with run show ?thesis by (auto simp: D s0)
  next
    case valid: True
    obtain rp wp where gp: "getLakeFormationDataLakePrincipals ev world0 = (rp, wp)" by force
    note GP = getLakeFormationDataLakePrincipals_run[OF gp]
    then have wp: "wp = world0" by simp
    show ?thesis
    proof (cases rp)
      case (Inl e)
      with run valid gp wp show ?thesis by (auto simp: D s0)
    next
      case rp: (Inr ps')
      with GP ps have isarr: "Array_isArray ?P" and ps': "ps' = ps" by simp_all
      obtain rd w1 where gd: "getDatabaseName p ?ram ?a world0 = (rd, w1)" by force
      from getDatabaseName_run[OF gd] s0 obtain x where
        w1: "sent w1 = [(?ram, ListResourcesCommand ?a (Some ''glue:database''), x)]"
        by auto
      show ?thesis
      proof (cases rd)
        case (Inl e)
        with run valid gp wp rp gd w1 show ?thesis by (auto simp: D)
      next
        case rd: (Inr db)
        let ?g = "p (sent w1) ?lf GetDataLakeSettingsCommand"
        let ?w2 = "w1\<lparr>sent := sent w1 @ [(?lf, GetDataLakeSettingsCommand, ?g)]\<rparr>"
        note GS = getLakeFormationDataLakeSettings_run[of p ?lf w1]
        show ?thesis
        proof (cases "\<exists>s0 a0. ?g = GetDataLakeSettingsResponse (Some s0) \<and> DataLakeAdmins s0 = Some a0")
          case False
          have "fst res = ''FAILED'' \<and> w = ?w2"
          proof (cases ?g)
            case (GetDataLakeSettingsResponse so)
            show ?thesis
            proof (cases so)
              case None
              with run valid gp wp rp gd rd GetDataLakeSettingsResponse show ?thesis
                by (auto simp: D GS buildDataLakeSettings_run)
            next
              case (Some s)
              with False GetDataLakeSettingsResponse have "DataLakeAdmins s = None" by auto
              with run valid gp wp rp gd rd GetDataLakeSettingsResponse Some show ?thesis
                by (auto simp: D GS buildDataLakeSettings_run)
            qed
          qed (use run valid gp wp rp gd rd in \<open>auto simp: D GS buildDataLakeSettings_run\<close>)
          with w1 show ?thesis by simp
        next
          case True
          then obtain s0 a0 where g: "?g = GetDataLakeSettingsResponse (Some s0)"
            and a0: "DataLakeAdmins s0 = Some a0" by blast
          let ?new = "s0\<lparr>DataLakeAdmins := Some (new_Set (a0 @ ps))\<rparr>"
          let ?temp = "s0\<lparr>DataLakeAdmins := Some (new_Set (new_Set (a0 @ ps) @ [role]))\<rparr>"
          let ?r3 = "p (sent ?w2) ?lf (PutDataLakeSettingsCommand ?temp)"
          let ?w3 = "?w2\<lparr>sent := sent ?w2 @ [(?lf, PutDataLakeSettingsCommand ?temp, ?r3)]\<rparr>"
          note g' = g[unfolded w1]
          obtain rg w4 where gr: "grantLakeFormationPermission p ?lf db ps ?w3 = (rg, w4)"
            by force
          note GR = grantLakeFormationPermission_run[OF gr]
          let ?r5 = "p (sent w4) ?lf (PutDataLakeSettingsCommand ?new)"
          let ?w5 = "w4\<lparr>sent := sent w4 @ [(?lf, PutDataLakeSettingsCommand ?new, ?r5)]\<rparr>"
          have body: "(res, w) =
             (case ?r3 of
                Rejected k m \<Rightarrow> ((''FAILED'', Some (ServiceException k m)), ?w3)
              | _ \<Rightarrow> (case rg of
                         Inl e \<Rightarrow> ((''FAILED'', Some e), w4)
                       | Inr _ \<Rightarrow> (case ?r5 of
                                      Rejected k m \<Rightarrow> ((''FAILED'', Some (ServiceException k m)), ?w5)
                                    | _ \<Rightarrow> ((''SUCCESS'', None), ?w5))))"
            using run valid gp wp rp ps' gd rd g a0 gr
            by (cases ?r3; cases rg; cases ?r5)
               (simp_all add: D GS buildDataLakeSettings_run setLakeFormationDataLakeSettings_run
                  role)
          from GR obtain k where k: "k \<le> length ps"
            and gk: "granted (sent w4) = granted (sent ?w3) @ take k ps"
            and kk: "(case rg of Inr _ \<Rightarrow> k = length ps | Inl _ \<Rightarrow> True)"
            and sw4: "settings_written (sent w4) = settings_written (sent ?w3)"
            and sr4: "settings_read (sent w4) = settings_read (sent ?w3)"
            by auto
          have g3: "granted (sent ?w3) = []" and sw3: "settings_written (sent ?w3) = [?temp]"
            and sr3: "settings_read (sent ?w3) = [s0]"
            by (simp_all add: w1 g')
          show ?thesis
          proof (cases "\<exists>k m. ?r3 = Rejected k m")
            case True
            with body have "fst res = ''FAILED''" and "w = ?w3" by auto
            with isarr a0 g3 sw3 sr3 show ?thesis
              by (intro disjI2 exI[of _ s0] exI[of _ a0] exI[of _ 0]) simp
          next
            case nr3: False
            show ?thesis
            proof (cases rg)
              case (Inl e)
              with body nr3 have "fst res = ''FAILED''" and "w = w4"
                by (cases ?r3; auto)+
              with isarr a0 g3 sw3 sr3 k gk sw4 sr4 show ?thesis
                by (intro disjI2 exI[of _ s0] exI[of _ a0] exI[of _ k]) simp
            next
              case (Inr u)
              with body nr3 have "res = (''SUCCESS'', None) \<or> fst res = ''FAILED''" and "w = ?w5"
                by (cases ?r3; cases ?r5; auto)+
              moreover from Inr kk have "k = length ps" by simp
              ultimately show ?thesis
                using isarr a0 g3 sw3 sr3 k gk sw4 sr4
                by (intro disjI2 exI[of _ s0] exI[of _ a0] exI[of _ k])
                   (simp add: granted_append settings_written_append settings_read_append)
            qed
          qed
        qed
      qed
    qed
  qed
qed



section \<open>TablePermissionGranter: final administrators\<close>

text \<open>
  Claim C1. In every create run of the table handler that returns SUCCESS, the settings
  were read once (\<open>s0\<close>, with administrators \<open>a0\<close>) and written twice. The final write
  is \<open>s0\<close> with the administrator list \<open>fin\<close>, whose elements are exactly the
  administrators read and the target principals of the event (without repetition). The
  first write adds the executing role to \<open>fin\<close>; the role is among the final
  administrators only if it was an administrator before or is one of the targets.
\<close>

theorem C1_final_administrators_are_original_and_targets:
  assumes run: "gluetable_startCreate p penv ev world0 = ((''SUCCESS'', r), w)"
  shows "\<exists>s0 a0 tmp fin.
           settings_read (sent w) = [s0] \<and> DataLakeAdmins s0 = Some a0
         \<and> settings_written (sent w)
             = [s0\<lparr>DataLakeAdmins := Some tmp\<rparr>, s0\<lparr>DataLakeAdmins := Some fin\<rparr>]
         \<and> set fin = set a0 \<union> set (elements (LakeFormationPrincipals (ResourceProperties ev)))
         \<and> distinct fin
         \<and> set tmp = insert (LambdaRoleArn (ResourceProperties ev)) (set fin)
         \<and> (LambdaRoleArn (ResourceProperties ev) \<in> set fin
              \<longleftrightarrow> LambdaRoleArn (ResourceProperties ev) \<in> set a0
                \<or> LambdaRoleArn (ResourceProperties ev)
                    \<in> set (elements (LakeFormationPrincipals (ResourceProperties ev))))"
proof -
  let ?ps = "new_Set (elements (LakeFormationPrincipals (ResourceProperties ev)))"
  let ?role = "LambdaRoleArn (ResourceProperties ev)"
  from gluetable_trace[OF run refl refl] obtain s0 a0 where
    rd: "settings_read (sent w) = [s0]" and a0: "DataLakeAdmins s0 = Some a0"
    and wr: "settings_written (sent w)
                 = [s0\<lparr>DataLakeAdmins := Some (new_Set (new_Set (a0 @ ?ps) @ [?role]))\<rparr>,
                    s0\<lparr>DataLakeAdmins := Some (new_Set (a0 @ ?ps))\<rparr>]"
    by auto
  show ?thesis
    by (rule exI[of _ s0], rule exI[of _ a0],
        rule exI[of _ "new_Set (new_Set (a0 @ ?ps) @ [?role])"],
        rule exI[of _ "new_Set (a0 @ ?ps)"])
       (auto simp: rd a0 wr set_new_Set distinct_new_Set)
qed

theorem C1_final_administrators_are_original_and_targets_witness:
  "gluetable_startCreate catalog_provider example_env example_event world0
     = ((''SUCCESS'', None),
        snd (gluetable_startCreate catalog_provider example_env example_event world0))
   \<and> (\<exists>s0 a0 tmp fin.
           settings_read
             (sent (snd (gluetable_startCreate catalog_provider example_env example_event world0)))
             = [s0]
         \<and> DataLakeAdmins s0 = Some a0
         \<and> settings_written
             (sent (snd (gluetable_startCreate catalog_provider example_env example_event world0)))
             = [s0\<lparr>DataLakeAdmins := Some tmp\<rparr>, s0\<lparr>DataLakeAdmins := Some fin\<rparr>]
         \<and> set fin = set a0
               \<union> set (elements (LakeFormationPrincipals (ResourceProperties example_event)))
         \<and> distinct fin
         \<and> set tmp = insert (LambdaRoleArn (ResourceProperties example_event)) (set fin)
         \<and> (LambdaRoleArn (ResourceProperties example_event) \<in> set fin
              \<longleftrightarrow> LambdaRoleArn (ResourceProperties example_event) \<in> set a0
                \<or> LambdaRoleArn (ResourceProperties example_event)
                    \<in> set (elements (LakeFormationPrincipals (ResourceProperties example_event)))))
   \<and> settings_written
        (sent (snd (gluetable_startCreate catalog_provider example_env example_event world0)))
      = [\<lparr>DataLakeAdmins = Some [''arn:aws:iam::123456789012:role/admin'',
                                  ''arn:aws:iam::123456789012:role/a'',
                                  ''arn:aws:iam::123456789012:role/b'',
                                  ''arn:aws:iam::123456789012:role/lambda''],
          otherFields = [(''TrustedResourceOwners'', ''[]'')]\<rparr>,
         \<lparr>DataLakeAdmins = Some [''arn:aws:iam::123456789012:role/admin'',
                                  ''arn:aws:iam::123456789012:role/a'',
                                  ''arn:aws:iam::123456789012:role/b''],
          otherFields = [(''TrustedResourceOwners'', ''[]'')]\<rparr>]"
proof -
  let ?run = "gluetable_startCreate catalog_provider example_env example_event world0"
  have "fst ?run = (''SUCCESS'', None)"
    by code_simp
  then have run: "?run = ((''SUCCESS'', None), snd ?run)"
    by (simp add: prod_eq_iff)
  have written: "settings_written (sent (snd ?run))
      = [\<lparr>DataLakeAdmins = Some [''arn:aws:iam::123456789012:role/admin'',
                                  ''arn:aws:iam::123456789012:role/a'',
                                  ''arn:aws:iam::123456789012:role/b'',
                                  ''arn:aws:iam::123456789012:role/lambda''],
          otherFields = [(''TrustedResourceOwners'', ''[]'')]\<rparr>,
         \<lparr>DataLakeAdmins = Some [''arn:aws:iam::123456789012:role/admin'',
                                  ''arn:aws:iam::123456789012:role/a'',
                                  ''arn:aws:iam::123456789012:role/b''],
          otherFields = [(''TrustedResourceOwners'', ''[]'')]\<rparr>]"
    by code_simp
  from run C1_final_administrators_are_original_and_targets[OF run] written show ?thesis
    by (intro conjI)
qed


section \<open>TablePermissionGranter: one grant per distinct principal\<close>

text \<open>
  Claim C9. In every create run of the table handler the grants issued are an initial part
  of the distinct principals of the event, in order of first occurrence: no principal is
  granted to twice, and only principals of the event are granted to. When the run returns
  SUCCESS, the grants are exactly the distinct principals: their number is the size of the
  set of principals in the input. A run that fails may have issued fewer.
\<close>

theorem C9_successful_run_grants_once_per_distinct_principal:
  assumes run: "gluetable_startCreate p penv ev world0 = (res, w)"
  shows "distinct (granted (sent w))
       \<and> granted (sent w)
           = take (length (granted (sent w)))
               (new_Set (elements (LakeFormationPrincipals (ResourceProperties ev))))
       \<and> set (granted (sent w)) \<subseteq> set (elements (LakeFormationPrincipals (ResourceProperties ev)))
       \<and> (fst res = ''SUCCESS'' \<longrightarrow>
            granted (sent w) = new_Set (elements (LakeFormationPrincipals (ResourceProperties ev)))
          \<and> set (granted (sent w)) = set (elements (LakeFormationPrincipals (ResourceProperties ev)))
          \<and> length (granted (sent w))
              = card (set (elements (LakeFormationPrincipals (ResourceProperties ev)))))"
proof -
  let ?ps = "new_Set (elements (LakeFormationPrincipals (ResourceProperties ev)))"
  from gluetable_trace[OF run refl refl]
  obtain k where k: "granted (sent w) = take k ?ps"
    and full: "fst res = ''SUCCESS'' \<longrightarrow> k = length ?ps"
    by (auto intro: that[of 0])
  have "distinct (granted (sent w))"
    by (simp add: k distinct_new_Set)
  moreover have "granted (sent w) = take (length (granted (sent w))) ?ps"
    by (simp add: k min_def)
  moreover have "set (granted (sent w))
      \<subseteq> set (elements (LakeFormationPrincipals (ResourceProperties ev)))"
    using set_take_subset[of k ?ps] by (simp add: k set_new_Set)
  moreover have "fst res = ''SUCCESS'' \<longrightarrow> granted (sent w) = ?ps"
    using full by (simp add: k)
  ultimately show ?thesis
    by (auto simp: set_new_Set length_new_Set)
qed

text \<open>The theorem on the example event, whose principals are a, b, a: two grants.\<close>

theorem C9_successful_run_grants_once_per_distinct_principal_witness:
  "fst (fst (gluetable_startCreate catalog_provider example_env example_event world0)) = ''SUCCESS''
   \<and> elements (LakeFormationPrincipals (ResourceProperties example_event))
      = [''arn:aws:iam::123456789012:role/a'', ''arn:aws:iam::123456789012:role/b'',
         ''arn:aws:iam::123456789012:role/a'']
   \<and> granted (sent (snd (gluetable_startCreate catalog_provider example_env example_event world0)))
      = [''arn:aws:iam::123456789012:role/a'', ''arn:aws:iam::123456789012:role/b'']
   \<and> length (granted
        (sent (snd (gluetable_startCreate catalog_provider example_env example_event world0))))
      = card (set (elements (LakeFormationPrincipals (ResourceProperties example_event))))"
proof -
  let ?run = "gluetable_startCreate catalog_provider example_env example_event world0"
  have ok: "fst (fst ?run) = ''SUCCESS''"
    by code_simp
  have run: "?run = (fst ?run, snd ?run)"
    by simp
  have el: "elements (LakeFormationPrincipals (ResourceProperties example_event))
      = [''arn:aws:iam::123456789012:role/a'', ''arn:aws:iam::123456789012:role/b'',
         ''arn:aws:iam::123456789012:role/a'']"
    by code_simp
  have gr: "granted (sent (snd ?run))
      = [''arn:aws:iam::123456789012:role/a'', ''arn:aws:iam::123456789012:role/b'']"
    by code_simp
  from C9_successful_run_grants_once_per_distinct_principal[OF run] ok
  have "length (granted (sent (snd ?run)))
      = card (set (elements (LakeFormationPrincipals (ResourceProperties example_event))))"
    by blast
  with ok el gr show ?thesis
    by (intro conjI)
qed

text \<open>
  The same event against a provider that rejects the grants: the loop stops at the first
  rejection, so one grant is issued for two distinct principals, and the run fails.
\<close>

theorem C9_denied_grant_counterexample:
  "elements (LakeFormationPrincipals (ResourceProperties example_event))
      = [''arn:aws:iam::123456789012:role/a'', ''arn:aws:iam::123456789012:role/b'',
         ''arn:aws:iam::123456789012:role/a'']
   \<and> fst (gluetable_startCreate grant_denied_provider example_env example_event world0)
      = (''FAILED'', Some (ServiceException (OtherException ''AccessDeniedException'')
                            ''Insufficient permissions.''))
   \<and> granted (sent (snd (gluetable_startCreate grant_denied_provider example_env example_event
                            world0)))
      = [''arn:aws:iam::123456789012:role/a'']
   \<and> card (set (elements (LakeFormationPrincipals (ResourceProperties example_event)))) = 2
   \<and> length (granted (sent (snd (gluetable_startCreate grant_denied_provider example_env
                                    example_event world0))))
      \<noteq> card (set (elements (LakeFormationPrincipals (ResourceProperties example_event))))"
  by code_simp


section \<open>TablePermissionGranter: only the administrators change\<close>

text \<open>
  Claim C10. Every settings object that a create run of the table handler writes (the
  temporary and the final one, whatever the outcome of the run) is the settings object
  read at the start with nothing but the administrator list replaced; in particular
  its other fields are those read.
\<close>

theorem C10_settings_writes_change_only_administrators:
  assumes run: "gluetable_startCreate p penv ev world0 = (res, w)"
  shows "\<forall>s \<in> set (settings_written (sent w)).
           \<exists>s0. settings_read (sent w) = [s0]
              \<and> s = s0\<lparr>DataLakeAdmins := DataLakeAdmins s\<rparr>
              \<and> otherFields s = otherFields s0"
  using gluetable_trace[OF run refl refl] by auto

theorem C10_settings_writes_change_only_administrators_witness:
  "settings_written
     (sent (snd (gluetable_startCreate catalog_provider example_env example_event world0)))
     = [\<lparr>DataLakeAdmins = Some [''arn:aws:iam::123456789012:role/admin'',
                                 ''arn:aws:iam::123456789012:role/a'',
                                 ''arn:aws:iam::123456789012:role/b'',
                                 ''arn:aws:iam::123456789012:role/lambda''],
         otherFields = [(''TrustedResourceOwners'', ''[]'')]\<rparr>,
        \<lparr>DataLakeAdmins = Some [''arn:aws:iam::123456789012:role/admin'',
                                 ''arn:aws:iam::123456789012:role/a'',
                                 ''arn:aws:iam::123456789012:role/b''],
         otherFields = [(''TrustedResourceOwners'', ''[]'')]\<rparr>]
   \<and> (\<exists>s0. settings_read
              (sent (snd (gluetable_startCreate catalog_provider example_env example_event world0)))
              = [s0]
            \<and> \<lparr>DataLakeAdmins = Some [''arn:aws:iam::123456789012:role/admin'',
                                        ''arn:aws:iam::123456789012:role/a'',
                                        ''arn:aws:iam::123456789012:role/b'',
                                        ''arn:aws:iam::123456789012:role/lambda''],
                otherFields = [(''TrustedResourceOwners'', ''[]'')]\<rparr>
              = s0\<lparr>DataLakeAdmins := Some [''arn:aws:iam::123456789012:role/admin'',
                                            ''arn:aws:iam::123456789012:role/a'',
                                            ''arn:aws:iam::123456789012:role/b'',
                                            ''arn:aws:iam::123456789012:role/lambda'']\<rparr>
            \<and> [(''TrustedResourceOwners'', ''[]'')] = otherFields s0)
   \<and> (\<exists>s0. settings_read
              (sent (snd (gluetable_startCreate catalog_provider example_env example_event world0)))
              = [s0]
            \<and> \<lparr>DataLakeAdmins = Some [''arn:aws:iam::123456789012:role/admin'',
                                        ''arn:aws:iam::123456789012:role/a'',
                                        ''arn:aws:iam::123456789012:role/b''],
                otherFields = [(''TrustedResourceOwners'', ''[]'')]\<rparr>
              = s0\<lparr>DataLakeAdmins := Some [''arn:aws:iam::123456789012:role/admin'',
                                            ''arn:aws:iam::123456789012:role/a'',
                                            ''arn:aws:iam::123456789012:role/b'']\<rparr>
            \<and> [(''TrustedResourceOwners'', ''[]'')] = otherFields s0)"
proof -
  let ?run = "gluetable_startCreate catalog_provider example_env example_event world0"
  let ?A = "\<lparr>DataLakeAdmins = Some [''arn:aws:iam::123456789012:role/admin'',
                                     ''arn:aws:iam::123456789012:role/a'',
                                     ''arn:aws:iam::123456789012:role/b'',
                                     ''arn:aws:iam::123456789012:role/lambda''],
             otherFields = [(''TrustedResourceOwners'', ''[]'')]\<rparr>"
  let ?B = "\<lparr>DataLakeAdmins = Some [''arn:aws:iam::123456789012:role/admin'',
                                     ''arn:aws:iam::123456789012:role/a'',
                                     ''arn:aws:iam::123456789012:role/b''],
             otherFields = [(''TrustedResourceOwners'', ''[]'')]\<rparr>"
  have run: "?run = (fst ?run, snd ?run)"
    by simp
  have written: "settings_written (sent (snd ?run)) = [?A, ?B]"
    by code_simp
  note all = C10_settings_writes_change_only_administrators[OF run]
  have inA: "?A \<in> set (settings_written (sent (snd ?run)))"
    unfolding written by simp
  have inB: "?B \<in> set (settings_written (sent (snd ?run)))"
    unfolding written by simp
  from all[THEN bspec, OF inA]
  have A: "\<exists>s0. settings_read (sent (snd ?run)) = [s0]
              \<and> ?A = s0\<lparr>DataLakeAdmins := Some [''arn:aws:iam::123456789012:role/admin'',
                                            ''arn:aws:iam::123456789012:role/a'',
                                            ''arn:aws:iam::123456789012:role/b'',
                                            ''arn:aws:iam::123456789012:role/lambda'']\<rparr>
              \<and> [(''TrustedResourceOwners'', ''[]'')] = otherFields s0"
    by simp
  from all[THEN bspec, OF inB]
  have B: "\<exists>s0. settings_read (sent (snd ?run)) = [s0]
              \<and> ?B = s0\<lparr>DataLakeAdmins := Some [''arn:aws:iam::123456789012:role/admin'',
                                            ''arn:aws:iam::123456789012:role/a'',
                                            ''arn:aws:iam::123456789012:role/b'']\<rparr>
              \<and> [(''TrustedResourceOwners'', ''[]'')] = otherFields s0"
    by simp
  from written A B show ?thesis
    by (intro conjI)
qed

section \<open>TablePermissionGranter: principals that are not a list\<close>

lemma regex_exec_length: "regex_exec r s = Some cap \<Longrightarrow> length cap = Suc (Suc (ngroups r) - 1)"
  by (auto simp: regex_exec_def split: option.splits prod.splits)

text \<open>
  Claim C7, as the code has it. When the principals input is not a list, the create run
  fails with an input error and sends no command at all: the error is that of the share
  ARN if that is malformed, else that of the stack id if no account id can be parsed
  from it, else \<open>LakeFormationPrincipals is not an array.\<close> An empty list, however, passes
  validatePrincipals.
\<close>

theorem C7_non_list_principals_rejected:
  assumes "\<not> Array_isArray (LakeFormationPrincipals (ResourceProperties ev))"
  shows "gluetable_startCreate p penv ev world0 =
           ((''FAILED'',
             Some (if \<not> regex_test RESOURCE_SHARE_ARN_REGEX
                          (ToString (ResourceShareArn (ResourceProperties ev)))
                   then JsError ''Invalid ResourceShareArn.''
                   else if regex_exec ACCOUNT_ID_FROM_STACK_REGEX (ToString (StackId ev)) = None
                   then JsError ''Could not parse account id from stack ID.''
                   else JsError ''LakeFormationPrincipals is not an array.'')),
            world0)
       \<and> validatePrincipals (JArray []) accountId w = (Inr (), w)"
proof -
  have ng: "ngroups ACCOUNT_ID_FROM_STACK_REGEX = 2"
    by code_simp
  have len: "regex_exec ACCOUNT_ID_FROM_STACK_REGEX s = Some cap \<Longrightarrow> \<not> length cap < 2" for s cap
    using regex_exec_length[of ACCOUNT_ID_FROM_STACK_REGEX s cap] by (simp add: ng)
  show ?thesis
    using assms
    by (auto simp: gluetable_startCreate_def Let_def io_defs getResourceShareArn_run
          getLakeFormationDataLakePrincipals_def getAccountId_def validatePrincipals_def len
        split: option.splits)
qed


theorem C7_non_list_principals_rejected_witness:
  "\<not> Array_isArray (LakeFormationPrincipals (ResourceProperties string_principals_event))
   \<and> gluetable_startCreate catalog_provider example_env string_principals_event world0
      = ((''FAILED'', Some (JsError ''LakeFormationPrincipals is not an array.'')), world0)"
proof -
  have na: "\<not> Array_isArray (LakeFormationPrincipals (ResourceProperties string_principals_event))"
    by code_simp
  have valid: "regex_test RESOURCE_SHARE_ARN_REGEX
      (ToString (ResourceShareArn (ResourceProperties string_principals_event)))"
    by code_simp
  have parse: "regex_exec ACCOUNT_ID_FROM_STACK_REGEX (ToString (StackId string_principals_event))
      \<noteq> None"
    by code_simp
  from C7_non_list_principals_rejected[OF na, of catalog_provider example_env, THEN conjunct1] valid parse
  have "gluetable_startCreate catalog_provider example_env string_principals_event world0
      = ((''FAILED'', Some (JsError ''LakeFormationPrincipals is not an array.'')), world0)"
    by simp
  with na show ?thesis
    by (rule conjI)
qed


text \<open>
  With an empty list of principals the run does not fail: against a provider that
  fulfils every command it returns SUCCESS, having written the settings twice.
\<close>

theorem C7_empty_principals_counterexample:
  "LakeFormationPrincipals (ResourceProperties empty_principals_event) = JArray []
   \<and> fst (gluetable_startCreate catalog_provider example_env empty_principals_event world0)
      = (''SUCCESS'', None)
   \<and> settings_written
        (sent (snd (gluetable_startCreate catalog_provider example_env empty_principals_event world0)))
      = [\<lparr>DataLakeAdmins = Some [''arn:aws:iam::123456789012:role/admin'',
                                  ''arn:aws:iam::123456789012:role/lambda''],
          otherFields = [(''TrustedResourceOwners'', ''[]'')]\<rparr>,
         \<lparr>DataLakeAdmins = Some [''arn:aws:iam::123456789012:role/admin''],
          otherFields = [(''TrustedResourceOwners'', ''[]'')]\<rparr>]"
  by code_simp


section \<open>ParameterPublisher: the shape of a run\<close>

lemma rejected_puts_append: "rejected_puts (xs @ ys) = rejected_puts xs @ rejected_puts ys"
  by (induction xs rule: rejected_puts.induct) simp_all

lemma rejected_puts_mem:
  "(c, PutParameterCommand prm v, Rejected k m) \<in> set tr
     \<Longrightarrow> (c, prm, v, k, m) \<in> set (rejected_puts tr)"
  by (induction tr rule: rejected_puts.induct) auto

lemma getStackIdParameter_run:
  "getStackIdParameter p c w =
     (Inr (stack_id_found (p (sent w) c (GetParameterCommand ''/Detective/SLI/StackId''))),
      w\<lparr>sent := sent w @ [(c, GetParameterCommand ''/Detective/SLI/StackId'',
                             p (sent w) c (GetParameterCommand ''/Detective/SLI/StackId''))]\<rparr>)"
  by (simp add: getStackIdParameter_def io_defs send_eq STACK_ID_PARAMETER_def stack_id_found_def
      split: response.splits)

lemma saveParameter_run:
  "saveParameter p c prm v w =
     (case p (sent w) c (PutParameterCommand prm v) of
        Rejected k m \<Rightarrow>
          (if k = ParameterAlreadyExists
           then (Inl (ServiceException k m),
                 w\<lparr>sent := sent w @
                      [(c, PutParameterCommand prm v, Rejected k m),
                       (c, GetParameterCommand ''/Detective/SLI/StackId'',
                        p (sent w @ [(c, PutParameterCommand prm v, Rejected k m)]) c
                          (GetParameterCommand ''/Detective/SLI/StackId''))],
                    console_error := console_error w @
                      [collision_line prm (stack_id_found
                         (p (sent w @ [(c, PutParameterCommand prm v, Rejected k m)]) c
                            (GetParameterCommand ''/Detective/SLI/StackId'')))]\<rparr>)
           else (Inl (ServiceException k m),
                 w\<lparr>sent := sent w @ [(c, PutParameterCommand prm v, Rejected k m)]\<rparr>))
      | r \<Rightarrow> (Inr (), w\<lparr>sent := sent w @ [(c, PutParameterCommand prm v, r)]\<rparr>))"
  by (simp add: saveParameter_def io_defs send_eq getStackIdParameter_run collision_line_def
         console_error_line_def
      split: response.splits exception_class.splits)

lemma saveAll_trace:
  assumes "saveAll p c pvs w = (r, w')"
    and "rejected_puts (sent w) = []" and "console_error w = []"
  shows "(rejected_puts (sent w') = [] \<and> console_error w' = [])
       \<or> (\<exists>prm v k m.
             rejected_puts (sent w') = [(c, prm, v, k, m)] \<and> r = Inl (ServiceException k m)
           \<and> (if k = ParameterAlreadyExists
               then fst (last (sent w')) = c
                  \<and> fst (snd (last (sent w'))) = GetParameterCommand ''/Detective/SLI/StackId''
                  \<and> console_error w'
                      = [collision_line prm (stack_id_found (snd (snd (last (sent w')))))]
               else console_error w' = []))"
  using assms
proof (induction pvs arbitrary: w)
  case Nil
  then show ?case by (simp add: io_defs)
next
  case (Cons pv pvs)
  obtain prm v where pv: "pv = (prm, v)" by force
  let ?r = "p (sent w) c (PutParameterCommand prm v)"
  show ?case
  proof (cases "\<exists>k m. ?r = Rejected k m")
    case True
    then obtain k m where rej: "?r = Rejected k m" by blast
    with Cons.prems pv show ?thesis
      by (intro disjI2 exI[of _ prm] exI[of _ v] exI[of _ k] exI[of _ m])
         (auto simp: io_defs saveParameter_run rejected_puts_append split: if_splits)
  next
    case False
    let ?w1 = "w\<lparr>sent := sent w @ [(c, PutParameterCommand prm v, ?r)]\<rparr>"
    from False have sp: "saveParameter p c prm v w = (Inr (), ?w1)"
      by (cases ?r) (simp_all add: saveParameter_run)
    with Cons.prems pv have rec: "saveAll p c pvs ?w1 = (r, w')"
      by (simp add: io_defs)
    from False Cons.prems have "rejected_puts (sent ?w1) = []" and "console_error ?w1 = []"
      by (cases ?r; simp add: rejected_puts_append)+
    from Cons.IH[OF rec this] show ?thesis .
  qed
qed


lemma five_saves:
  "io_bind (saveParameter p c p1 v1) (\<lambda>_.
   io_bind (saveParameter p c p2 v2) (\<lambda>_.
   io_bind (saveParameter p c p3 v3) (\<lambda>_.
   io_bind (saveParameter p c p4 v4) (\<lambda>_.
   saveParameter p c p5 v5)))) w
   = saveAll p c [(p1, v1), (p2, v2), (p3, v3), (p4, v4), (p5, v5)] w"
  by (simp add: io_defs split: prod.splits sum.splits)

lemma getDTRegion_run:
  "getDTRegion ev w =
     (if regex_test regionRegex (ToString (DTRegion (ResourceProperties ev)))
      then (Inr (DTRegion (ResourceProperties ev)), w)
      else (Inl (JsError (''Invalid region: ''
                           @ ToString (DTRegion (ResourceProperties ev)) @ ''.'')), w))"
  by (simp add: getDTRegion_def Let_def io_defs validateRegion_run)

lemma getAthenaResultBucket_pure: "getAthenaResultBucket ev w = (r, w') \<Longrightarrow> w' = w"
  by (auto simp: getAthenaResultBucket_def Let_def io_defs split: if_splits)

lemma getStackId_pure: "getStackId ev w = (r, w') \<Longrightarrow> w' = w"
  by (auto simp: getStackId_def Let_def io_defs split: if_splits)

lemma parseTableNames_pure: "parseTableNames acc xs w = (r, w') \<Longrightarrow> w' = w"
  by (induction xs arbitrary: acc) (auto simp: io_defs split: option.splits if_splits)

lemma getTableNames_run:
  assumes "getTableNames p c a w = (r, w')"
  shows "\<exists>x. w' = w\<lparr>sent := sent w @ [(c, ListResourcesCommand a (Some ''glue:table''), x)]\<rparr>"
proof -
  let ?x = "p (sent w) c (ListResourcesCommand a (Some ''glue:table''))"
  let ?w1 = "w\<lparr>sent := sent w @ [(c, ListResourcesCommand a (Some ''glue:table''), ?x)]\<rparr>"
  obtain ra wa where ga: "getTableArns p c a w = (ra, wa)" by force
  then have wa: "wa = ?w1"
    by (auto simp: getTableArns_def resources_of_def io_defs send_eq
        split: response.splits if_splits)
  show ?thesis
  proof (cases ra)
    case (Inl e)
    with assms ga wa show ?thesis by (auto simp: getTableNames_def io_defs)
  next
    case (Inr arns)
    with assms ga have "parseTableNames [] arns wa = (r, w')"
      by (simp add: getTableNames_def io_defs)
    then have "w' = wa" by (rule parseTableNames_pure)
    with wa show ?thesis by blast
  qed
qed

lemma createParameters_trace:
  assumes run: "createParameters p ev world0 = (res, w)"
  shows "(rejected_puts (sent w) = [] \<and> console_error w = [])
       \<or> (\<exists>c prm v k m.
             rejected_puts (sent w) = [(c, prm, v, k, m)]
           \<and> res = (''FAILED'', Some (ServiceException k m))
           \<and> (if k = ParameterAlreadyExists
               then fst (last (sent w)) = c
                  \<and> fst (snd (last (sent w))) = GetParameterCommand ''/Detective/SLI/StackId''
                  \<and> console_error w
                      = [collision_line prm (stack_id_found (snd (snd (last (sent w)))))]
               else console_error w = []))"
proof -
  let ?a = "ResourceShareArn (ResourceProperties ev)"
  let ?dt = "DTRegion (ResourceProperties ev)"
  note D = createParameters_def Let_def io_bind_def getResourceShareArn_run getDTRegion_run
  have c0: "console_error world0 = []" by (simp add: world0_def)
  note s0 = sent_world0
  show ?thesis
  proof (cases "regex_test RESOURCE_SHARE_ARN_REGEX (ToString ?a)")
    case False
    with run show ?thesis by (auto simp: D s0 c0)
  next
    case valid: True
    obtain rr wr where reg: "getResourceShareRegion ?a world0 = (rr, wr)" by force
    then have wr: "wr = world0" by (rule getResourceShareRegion_world)
    show ?thesis
    proof (cases rr)
      case (Inl e)
      with run valid reg wr show ?thesis by (auto simp: D s0 c0)
    next
      case rr: (Inr region)
      show ?thesis
      proof (cases "regex_test regionRegex (ToString ?dt)")
        case False
        with run valid reg wr rr show ?thesis by (auto simp: D s0 c0)
      next
        case dt: True
        obtain rb wb where gb: "getAthenaResultBucket ev world0 = (rb, wb)" by force
        then have wb: "wb = world0" by (rule getAthenaResultBucket_pure)
        show ?thesis
        proof (cases rb)
          case (Inl e)
          with run valid reg wr rr dt gb wb show ?thesis by (auto simp: D s0 c0)
        next
          case rb: (Inr bucket)
          obtain ri wi where gi: "getStackId ev world0 = (ri, wi)" by force
          then have wi: "wi = world0" by (rule getStackId_pure)
          show ?thesis
          proof (cases ri)
            case (Inl e)
            with run valid reg wr rr dt gb wb rb gi wi show ?thesis by (auto simp: D s0 c0)
          next
            case ri: (Inr stackId)
            obtain rd w1 where gd: "getDatabaseName p (RAMClient region) ?a world0 = (rd, w1)"
              by force
            from getDatabaseName_run[OF gd] have w1: "rejected_puts (sent w1) = []"
              "console_error w1 = []"
              by (auto simp: s0 c0)
            show ?thesis
            proof (cases rd)
              case (Inl e)
              with run valid reg wr rr dt gb wb rb gi wi ri gd w1 show ?thesis
                by (auto simp: D)
            next
              case rd: (Inr db)
              obtain rt w2 where gt: "getTableNames p (RAMClient region) ?a w1 = (rt, w2)"
                by force
              from getTableNames_run[OF gt] w1 have w2: "rejected_puts (sent w2) = []"
                "console_error w2 = []"
                by (auto simp: rejected_puts_append)
              show ?thesis
              proof (cases rt)
                case (Inl e)
                with run valid reg wr rr dt gb wb rb gi wi ri gd rd gt w2 show ?thesis
                  by (auto simp: D)
              next
                case rt: (Inr names)
                let ?pvs = "[(STACK_ID_PARAMETER, stackId), (RESOURCE_SHARE_ARN_PARAMETER, ?a),
                   (ATHENA_RESULT_BUCKET_PARAMETER, bucket), (DATABASE_NAME_PARAMETER, of_opt db),
                   (TABLE_NAMES_PARAMETER, JString (join_names names))]"
                obtain rs w3 where sa: "saveAll p (SSMClient ?dt) ?pvs w2 = (rs, w3)" by force
                note sa' = sa[folded five_saves]
                have fin: "createParameters p ev world0 =
                    (case rs of Inr _ \<Rightarrow> ((''SUCCESS'', None), w3)
                              | Inl e \<Rightarrow> ((''FAILED'', Some e), w3))"
                  unfolding createParameters_def Let_def
                  apply (subst io_bind_def)
                  apply (simp only: getResourceShareArn_run valid if_True prod.case sum.case)
                  apply (subst io_bind_def)
                  apply (simp only: reg wr rr prod.case sum.case)
                  apply (subst io_bind_def)
                  apply (simp only: getDTRegion_run dt if_True prod.case sum.case)
                  apply (subst io_bind_def)
                  apply (simp only: gb wb rb prod.case sum.case)
                  apply (subst io_bind_def)
                  apply (simp only: gi wi ri prod.case sum.case)
                  apply (subst io_bind_def)
                  apply (simp only: gd rd prod.case sum.case)
                  apply (subst io_bind_def)
                  apply (simp only: gt rt prod.case sum.case)
                  apply (simp only: sa')
                  apply (cases rs; simp)
                  done
                from saveAll_trace[OF sa w2] show ?thesis
                proof (elim disjE exE conjE)
                  assume "rejected_puts (sent w3) = []" and "console_error w3 = []"
                  moreover from fin run have "w = w3" by (cases rs) simp_all
                  ultimately show ?thesis by simp
                next
                  fix prm v k m
                  assume rp: "rejected_puts (sent w3) = [(SSMClient ?dt, prm, v, k, m)]"
                    and r: "rs = Inl (ServiceException k m)"
                    and cond: "if k = ParameterAlreadyExists
                       then fst (last (sent w3)) = SSMClient ?dt
                          \<and> fst (snd (last (sent w3)))
                              = GetParameterCommand ''/Detective/SLI/StackId''
                          \<and> console_error w3
                              = [collision_line prm (stack_id_found (snd (snd (last (sent w3)))))]
                       else console_error w3 = []"
                  from fin run r have res: "res = (''FAILED'', Some (ServiceException k m))"
                    and w: "w = w3" by simp_all
                  from rp res cond show ?thesis
                    unfolding w
                    by (intro disjI2 exI[of _ "SSMClient ?dt"] exI[of _ prm] exI[of _ v]
                          exI[of _ k] exI[of _ m] conjI)
                qed
              qed
            qed
          qed
        qed
      qed
    qed
  qed
qed


section \<open>ParameterPublisher: a write that collides\<close>

text \<open>
  Claim C6. Whenever a parameter write of a create run of ParameterPublisher is rejected
  with ParameterAlreadyExists, the run fails, and the error it reports is the provider's
  error itself, class and message unchanged. The last command of the run is the look-up of
  the stack id parameter, sent through the same client, and saveParameter writes exactly
  one line with \<open>console.error\<close>: the line naming the stack id when the look-up returned a
  non-empty value, and the generic line when it returned nothing, also when the look-up
  itself was rejected. The stack id is thus in the log line, not in the error's message.
\<close>

theorem C6_collision_fails_with_provider_error:
  assumes run: "createParameters p ev world0 = (res, w)"
    and collision: "(c, PutParameterCommand prm v, Rejected ParameterAlreadyExists msg)
                      \<in> set (sent w)"
  shows "res = (''FAILED'', Some (ServiceException ParameterAlreadyExists msg))
       \<and> fst (last (sent w)) = c
       \<and> fst (snd (last (sent w))) = GetParameterCommand ''/Detective/SLI/StackId''
       \<and> console_error w
           = [case stack_id_found (snd (snd (last (sent w)))) of
                None \<Rightarrow>
                  ''SSM Parameter '' @ Name prm
                  @ '' already exists, another stack created by this template could ''
                  @ ''already exist, please delete the existing stack before creating ''
                  @ ''a new one.''
              | Some sid \<Rightarrow>
                  if sid = []
                  then ''SSM Parameter '' @ Name prm
                       @ '' already exists, another stack created by this template could ''
                       @ ''already exist, please delete the existing stack before creating ''
                       @ ''a new one.''
                  else ''SSM Parameter '' @ Name prm
                       @ '' already exists, another stack with stack ID '' @ sid
                       @ '' created by this template already exists, please delete it first.'']"
proof -
  from rejected_puts_mem[OF collision]
  have mem: "(c, prm, v, ParameterAlreadyExists, msg) \<in> set (rejected_puts (sent w))" .
  from createParameters_trace[OF run] mem
  obtain c' prm' v' k m where one: "rejected_puts (sent w) = [(c', prm', v', k, m)]"
    and res: "res = (''FAILED'', Some (ServiceException k m))"
    and cond: "if k = ParameterAlreadyExists
               then fst (last (sent w)) = c'
                  \<and> fst (snd (last (sent w))) = GetParameterCommand ''/Detective/SLI/StackId''
                  \<and> console_error w
                      = [collision_line prm' (stack_id_found (snd (snd (last (sent w)))))]
               else console_error w = []"
    by auto
  from one mem have eq: "c' = c" "prm' = prm" "k = ParameterAlreadyExists" "m = msg"
    by simp_all
  from cond res show ?thesis
    unfolding eq
    by (cases "stack_id_found (snd (snd (last (sent w))))") (simp_all add: collision_line_def)
qed

text \<open>
  The theorem on the example event against \<open>collision_provider\<close>: the third write collides,
  the run fails with the provider's error, and the line names the other stack.
\<close>

lemma collision_run:
  "createParameters collision_provider example_event world0 =
     ((''FAILED'', Some (ServiceException ParameterAlreadyExists ''The parameter already exists.'')),
      \<lparr>sent =
         [(RAMClient (JString ''us-west-2''),
           ListResourcesCommand
             (JString ''arn:aws:ram:us-west-2:111111111111:resource-share/abc'')
             (Some ''glue:database''),
           ListResourcesResponse
             [\<lparr>arn = Some ''arn:aws:glue:us-west-2:222222222222:database/shared_db''\<rparr>]),
          (RAMClient (JString ''us-west-2''),
           ListResourcesCommand
             (JString ''arn:aws:ram:us-west-2:111111111111:resource-share/abc'')
             (Some ''glue:table''),
           ListResourcesResponse
             [\<lparr>arn = Some ''arn:aws:glue:us-west-2:222222222222:table/shared_db/t1''\<rparr>,
              \<lparr>arn = Some ''arn:aws:glue:us-west-2:222222222222:table/shared_db/t2''\<rparr>]),
          (SSMClient (JString ''us-east-1''),
           PutParameterCommand STACK_ID_PARAMETER (JString ''stack-1''), Fulfilled),
          (SSMClient (JString ''us-east-1''),
           PutParameterCommand RESOURCE_SHARE_ARN_PARAMETER
             (JString ''arn:aws:ram:us-west-2:111111111111:resource-share/abc''),
           Fulfilled),
          (SSMClient (JString ''us-east-1''),
           PutParameterCommand ATHENA_RESULT_BUCKET_PARAMETER (JString ''my-bucket''),
           Rejected ParameterAlreadyExists ''The parameter already exists.''),
          (SSMClient (JString ''us-east-1''),
           GetParameterCommand ''/Detective/SLI/StackId'',
           GetParameterResponse (Some ''other-stack''))],
       console_error =
         [''SSM Parameter /Detective/SLI/S3Bucket already exists, another stack with stack ID ''
          @ ''other-stack''
          @ '' created by this template already exists, please delete it first.'']\<rparr>)"
  by code_simp

theorem C6_collision_fails_with_provider_error_witness:
  "(SSMClient (JString ''us-east-1''),
    PutParameterCommand ATHENA_RESULT_BUCKET_PARAMETER (JString ''my-bucket''),
    Rejected ParameterAlreadyExists ''The parameter already exists.'')
     \<in> set (sent (snd (createParameters collision_provider example_event world0)))
   \<and> fst (createParameters collision_provider example_event world0)
      = (''FAILED'', Some (ServiceException ParameterAlreadyExists ''The parameter already exists.''))
   \<and> console_error (snd (createParameters collision_provider example_event world0))
      = [''SSM Parameter /Detective/SLI/S3Bucket already exists, another stack with stack ID ''
         @ ''other-stack'' @ '' created by this template already exists, please delete it first.'']"
proof -
  let ?run = "createParameters collision_provider example_event world0"
  have run: "?run = (fst ?run, snd ?run)"
    by simp
  have collision: "(SSMClient (JString ''us-east-1''),
      PutParameterCommand ATHENA_RESULT_BUCKET_PARAMETER (JString ''my-bucket''),
      Rejected ParameterAlreadyExists ''The parameter already exists.'')
     \<in> set (sent (snd ?run))"
    unfolding collision_run by simp
  have found: "stack_id_found (snd (snd (last (sent (snd ?run))))) = Some ''other-stack''"
    unfolding collision_run by (simp add: stack_id_found_def)
  note T = C6_collision_fails_with_provider_error[OF run collision]
  have "console_error (snd ?run)
      = [''SSM Parameter /Detective/SLI/S3Bucket already exists, another stack with stack ID ''
         @ ''other-stack'' @ '' created by this template already exists, please delete it first.'']"
    using T[THEN conjunct2, THEN conjunct2, THEN conjunct2]
    by (simp add: found ATHENA_RESULT_BUCKET_PARAMETER_def)
  with collision T[THEN conjunct1] show ?thesis
    by (intro conjI)
qed

text \<open>
  In that run the look-up did find the id of the other stack, and the id occurs neither in
  the error reported by createParameters nor in the Reason sent to CloudFormation.
\<close>

theorem C6_error_message_lacks_stack_id_counterexample:
  "fst (createParameters collision_provider example_event world0)
     = (''FAILED'', Some (ServiceException ParameterAlreadyExists ''The parameter already exists.''))
   \<and> snd (snd (last (sent (snd (createParameters collision_provider example_event world0)))))
     = GetParameterResponse (Some ''other-stack'')
   \<and> \<not> String_includes (thrown_to_string
          (ServiceException ParameterAlreadyExists ''The parameter already exists.''))
        ''other-stack''
   \<and> \<not> String_includes (body_Reason
          (fst (ssm_handler collision_provider example_env example_event example_context)))
        ''other-stack''"
proof -
  let ?e = "ServiceException ParameterAlreadyExists ''The parameter already exists.''"
  have rt: "RequestType example_event = ''Create''"
    by (simp add: example_event_def)
  have "fst (ssm_handler collision_provider example_env example_event example_context)
      = sendResponse example_env example_event example_context ''FAILED'' None
          (Some (Exception ?e))"
    by (simp add: ssm_handler_def rt collision_run exception_reason_def)
  then have reason:
    "body_Reason (fst (ssm_handler collision_provider example_env example_event example_context))
      = composeReason example_env example_context (Some (Exception ?e))"
    by (simp add: sendResponse_def)
  have a: "\<not> String_includes (thrown_to_string ?e) ''other-stack''"
    by code_simp
  have b: "\<not> String_includes (composeReason example_env example_context (Some (Exception ?e)))
              ''other-stack''"
    by code_simp
  show ?thesis
    unfolding reason collision_run using a b by simp
qed


section \<open>ParameterPublisher: Delete\<close>

text \<open>
  Claim C8. A Delete invocation of ParameterPublisher first validates DTRegion. If it is a
  region, exactly one command is sent, a DeleteParameters naming the five fixed names,
  whatever was sent or stored before, and the status is FAILED exactly when the provider
  rejects it. If it is not a region, nothing is sent and the status is FAILED.
\<close>

theorem C8_delete_batch_depends_on_region:
  assumes delete: "RequestType ev = ''Delete''"
    and run: "ssm_handler p penv ev ctx = (body, w)"
  shows "if regex_test regionRegex (ToString (DTRegion (ResourceProperties ev)))
         then sent w = [(SSMClient (DTRegion (ResourceProperties ev)),
                         DeleteParametersCommand
                           [''/Detective/SLI/StackId'', ''/Detective/SLI/ResourceShareArn'',
                            ''/Detective/SLI/S3Bucket'', ''/Detective/SLI/DatabaseName'',
                            ''/Detective/SLI/TableNames''],
                         p [] (SSMClient (DTRegion (ResourceProperties ev)))
                           (DeleteParametersCommand
                             [''/Detective/SLI/StackId'', ''/Detective/SLI/ResourceShareArn'',
                              ''/Detective/SLI/S3Bucket'', ''/Detective/SLI/DatabaseName'',
                              ''/Detective/SLI/TableNames'']))]
              \<and> body_Status body
                  = (case snd (snd (last (sent w))) of
                       Rejected k m \<Rightarrow> ''FAILED''
                     | _ \<Rightarrow> ''SUCCESS'')
         else sent w = [] \<and> body_Status body = ''FAILED''"
proof -
  let ?dt = "DTRegion (ResourceProperties ev)"
  let ?names = "[''/Detective/SLI/StackId'', ''/Detective/SLI/ResourceShareArn'',
                 ''/Detective/SLI/S3Bucket'', ''/Detective/SLI/DatabaseName'',
                 ''/Detective/SLI/TableNames'']"
  let ?r = "p [] (SSMClient ?dt) (DeleteParametersCommand ?names)"
  have names: "[Name STACK_ID_PARAMETER, Name RESOURCE_SHARE_ARN_PARAMETER,
                Name ATHENA_RESULT_BUCKET_PARAMETER, Name DATABASE_NAME_PARAMETER,
                Name TABLE_NAMES_PARAMETER] = ?names"
    by (simp add: STACK_ID_PARAMETER_def RESOURCE_SHARE_ARN_PARAMETER_def
          ATHENA_RESULT_BUCKET_PARAMETER_def DATABASE_NAME_PARAMETER_def TABLE_NAMES_PARAMETER_def)
  have del: "deleteParameters p ev world0 =
      (if regex_test regionRegex (ToString ?dt)
       then ((case ?r of Rejected k m \<Rightarrow> (''FAILED'', Some (ServiceException k m))
                       | _ \<Rightarrow> (''SUCCESS'', None)),
             world0\<lparr>sent := [(SSMClient ?dt, DeleteParametersCommand ?names, ?r)]\<rparr>)
       else ((''FAILED'', Some (JsError (''Invalid region: '' @ ToString ?dt @ ''.''))), world0))"
    unfolding deleteParameters_def names Let_def
    by (cases ?r)
       (simp_all add: io_defs getDTRegion_run deleteSSMParameters_def send_eq sent_world0)
  have h: "ssm_handler p penv ev ctx =
      (case deleteParameters p ev world0 of
         ((result, rsn), w) \<Rightarrow> (sendResponse penv ev ctx result None (exception_reason rsn), w))"
    using delete by (simp add: ssm_handler_def)
  show ?thesis
  proof (cases "regex_test regionRegex (ToString ?dt)")
    case True
    with run h del show ?thesis
      by (cases ?r) (auto simp: sendResponse_def)
  next
    case False
    with run h del show ?thesis
      by (auto simp: sendResponse_def sent_world0)
  qed
qed

text \<open>The theorem on a Delete request with a valid region.\<close>

theorem C8_delete_batch_depends_on_region_witness:
  "RequestType delete_event = ''Delete''
   \<and> sent (snd (ssm_handler catalog_provider example_env delete_event example_context))
      = [(SSMClient (JString ''us-east-1''),
          DeleteParametersCommand
            [''/Detective/SLI/StackId'', ''/Detective/SLI/ResourceShareArn'',
             ''/Detective/SLI/S3Bucket'', ''/Detective/SLI/DatabaseName'',
             ''/Detective/SLI/TableNames''],
          Fulfilled)]
   \<and> body_Status (fst (ssm_handler catalog_provider example_env delete_event example_context))
      = ''SUCCESS''"
proof -
  let ?run = "ssm_handler catalog_provider example_env delete_event example_context"
  have delete: "RequestType delete_event = ''Delete''"
    by code_simp
  have run: "?run = (fst ?run, snd ?run)"
    by simp
  have region: "regex_test regionRegex (ToString (DTRegion (ResourceProperties delete_event)))"
    by code_simp
  have dt: "DTRegion (ResourceProperties delete_event) = JString ''us-east-1''"
    by code_simp
  from C8_delete_batch_depends_on_region[OF delete run] region
  have T: "sent (snd ?run) = [(SSMClient (JString ''us-east-1''),
          DeleteParametersCommand
            [''/Detective/SLI/StackId'', ''/Detective/SLI/ResourceShareArn'',
             ''/Detective/SLI/S3Bucket'', ''/Detective/SLI/DatabaseName'',
             ''/Detective/SLI/TableNames''],
          Fulfilled)]
      \<and> body_Status (fst ?run)
          = (case snd (snd (last (sent (snd ?run)))) of
               Rejected k m \<Rightarrow> ''FAILED''
             | _ \<Rightarrow> ''SUCCESS'')"
    by (simp add: dt catalog_provider_def)
  then have st: "body_Status (fst ?run) = ''SUCCESS''"
    by simp
  from delete T[THEN conjunct1] st show ?thesis
    by (intro conjI)
qed

text \<open>A Delete request whose DTRegion is not a region: no batch is deleted.\<close>

theorem C8_invalid_region_delete_counterexample:
  "RequestType bad_region_delete_event = ''Delete''
   \<and> deleted_batches
        (sent (snd (ssm_handler catalog_provider example_env bad_region_delete_event
                      example_context)))
      = []
   \<and> body_Status
        (fst (ssm_handler catalog_provider example_env bad_region_delete_event example_context))
      = ''FAILED''"
  by code_simp

end
